theory Spec2Isabelle
  imports Main "HOL-Library.Char_ord" "HOL-Library.List_Lexorder"
begin

section \<open>The store: rooms, room availability and bookings\<close>

text \<open>
  The handlers of \<^verbatim>\<open>src/lib/app.js\<close> (and of the older copy
  \<^verbatim>\<open>src/unnamed/part_000\<close>) keep no state of their own: every handler is a
  chain of SQL statements against three tables. The model keeps each table as the list
  of its rows and passes the store through every handler.

  Only the columns that the modelled statements read or write are kept. Calendar dates
  (\<^verbatim>\<open>YYYY-MM-DD\<close> strings in the source) are day numbers, so that "one calendar day
  ahead" is \<open>+ 1\<close>. Identifiers are strings and are compared exactly.
\<close>

type_synonym date = int

datatype slot_status = Free | Pending | Reserved | Disabled

record room =
  room_id :: string
  is_disabled :: bool

record slot =
  ra_time_slot :: string
  ra_status :: slot_status
  ra_room_id :: string
  availability_date :: date
  ra_student_id :: "string option"
  ra_booking_id :: "string option"

record booking =
  b_id :: string
  b_student_id :: string
  b_room_id :: string
  booking_date :: date
  b_time_slot :: string
  b_status :: string
  approved_by :: "string option"
  approved_at :: "nat option"

record db =
  rooms :: "room list"
  room_availability :: "slot list"
  bookings :: "booking list"

text \<open>
  What a handler reads from its environment when it runs: the UTC calendar day
  (\<^verbatim>\<open>new Date().toISOString().split('T')[0]\<close>), the local calendar day
  (\<^verbatim>\<open>toLocaleDateString\<close>), the milliseconds since local midnight, the epoch time
  (\<^verbatim>\<open>Date.now()\<close>) and the store's \<^verbatim>\<open>NOW()\<close>.
\<close>

record clock =
  today :: date
  local_day :: date
  local_ms :: nat
  epoch_ms :: nat
  db_now :: nat

text \<open>
  A handler answers with \<^verbatim>\<open>res.json(payload)\<close> or with
  \<^verbatim>\<open>res.status(code).json({error: message})\<close>.
\<close>

datatype 'a reply = Json 'a | Failed nat string

section \<open>Strings as JavaScript reads them\<close>

definition endsWith :: "string \<Rightarrow> string \<Rightarrow> bool" where
  "endsWith s t = (length t \<le> length s \<and> drop (length s - length t) s = t)"

text \<open>Lower case, for the ASCII letters.\<close>

definition lower_char :: "char \<Rightarrow> char" where
  "lower_char c =
     (case map_of (zip ''ABCDEFGHIJKLMNOPQRSTUVWXYZ'' ''abcdefghijklmnopqrstuvwxyz'') c of
        None \<Rightarrow> c
      | Some l \<Rightarrow> l)"

definition toLowerCase :: "string \<Rightarrow> string" where
  "toLowerCase s = map lower_char s"

text \<open>\<^verbatim>\<open>s.split(c)\<close> for a one-character separator; the empty string gives one empty piece.\<close>

fun js_split :: "char \<Rightarrow> string \<Rightarrow> string list" where
  "js_split c [] = [[]]"
| "js_split c (x # xs) =
     (if x = c then [] # js_split c xs
      else (case js_split c xs of
              [] \<Rightarrow> [[x]]
            | y # ys \<Rightarrow> (x # y) # ys))"

definition is_js_space :: "char \<Rightarrow> bool" where
  "is_js_space c = (let n = of_char c :: nat in n = 32 \<or> (9 \<le> n \<and> n \<le> 13))"

definition dec_digit :: "char \<Rightarrow> nat option" where
  "dec_digit c =
     (let n = of_char c :: nat in if 48 \<le> n \<and> n \<le> 57 then Some (n - 48) else None)"

definition hex_digit :: "char \<Rightarrow> nat option" where
  "hex_digit c =
     (let n = of_char c :: nat in
      if 48 \<le> n \<and> n \<le> 57 then Some (n - 48)
      else if 65 \<le> n \<and> n \<le> 70 then Some (n - 55)
      else if 97 \<le> n \<and> n \<le> 102 then Some (n - 87)
      else None)"

text \<open>The longest prefix of digits, read in the given radix; \<open>None\<close> is \<^verbatim>\<open>NaN\<close>.\<close>

fun parse_digits :: "(char \<Rightarrow> nat option) \<Rightarrow> nat \<Rightarrow> nat option \<Rightarrow> string \<Rightarrow> nat option" where
  "parse_digits dv radix acc [] = acc"
| "parse_digits dv radix acc (c # cs) =
     (case dv c of
        None \<Rightarrow> acc
      | Some d \<Rightarrow>
          parse_digits dv radix (Some (radix * (case acc of None \<Rightarrow> 0 | Some a \<Rightarrow> a) + d)) cs)"

text \<open>
  \<^verbatim>\<open>parseInt(s)\<close> with no radix: leading white space, an optional sign, an optional
  \<^verbatim>\<open>0x\<close> prefix, then digits. Integers are exact here (the source's are doubles), and
  of the white space only the ASCII characters are recognised.
\<close>

definition parseInt :: "string \<Rightarrow> int option" where
  "parseInt s =
     (let s1 = dropWhile is_js_space s;
          neg = (take 1 s1 = ''-'');
          s2 = (if take 1 s1 = ''-'' \<or> take 1 s1 = ''+'' then drop 1 s1 else s1);
          r = (if take 2 s2 = ''0x'' \<or> take 2 s2 = ''0X''
               then parse_digits hex_digit 16 None (drop 2 s2)
               else parse_digits dec_digit 10 None s2)
      in case r of
           None \<Rightarrow> None
         | Some n \<Rightarrow> Some (if neg then - int n else int n))"

text \<open>The decimal digits of a number, as string concatenation with a number writes them.\<close>

definition digit_char :: "nat \<Rightarrow> char" where
  "digit_char d = ''0123456789'' ! (d mod 10)"

fun digits_of :: "nat \<Rightarrow> string" where
  "digits_of n =
     (if n < 10 then [digit_char n] else digits_of (n div 10) @ [digit_char (n mod 10)])"

declare digits_of.simps [simp del]

section \<open>Login: the user type\<close>

text \<open>
  \<^verbatim>\<open>POST /api/login\<close>, after the credentials are verified (both copies of the file):
  \<^verbatim>\<open>
    let userType = 'student';
    if (email.endsWith('@mfu.th')) userType = 'staff';
    else if (email.endsWith('@mfu.ac.th')) userType = 'lecturer';
  \<close>
\<close>

definition userType :: "string \<Rightarrow> string" where
  "userType email =
     (if endsWith email ''@mfu.th'' then ''staff''
      else if endsWith email ''@mfu.ac.th'' then ''lecturer''
      else ''student'')"

section \<open>SQL statements over the tables\<close>

text \<open>
  \<^verbatim>\<open>UPDATE t SET ... WHERE cond\<close> rewrites the rows that satisfy the condition and keeps
  the others, in place; \<^verbatim>\<open>SELECT ... WHERE cond\<close> is \<^const>\<open>filter\<close>;
  \<^verbatim>\<open>DELETE ... WHERE cond\<close> keeps the rows that do not satisfy it.

  Every \<^verbatim>\<open>con.query\<close> either executes or calls back with an error and leaves the
  store as it was. Which statements fail is an input of each handler (a record of
  flags, one per statement of the handler).
\<close>

definition update_where :: "('r \<Rightarrow> bool) \<Rightarrow> ('r \<Rightarrow> 'r) \<Rightarrow> 'r list \<Rightarrow> 'r list" where
  "update_where cond set_cols rows = map (\<lambda>r. if cond r then set_cols r else r) rows"

definition delete_where :: "('r \<Rightarrow> bool) \<Rightarrow> 'r list \<Rightarrow> 'r list" where
  "delete_where cond rows = filter (\<lambda>r. \<not> cond r) rows"

definition slot_at :: "string \<Rightarrow> date \<Rightarrow> string \<Rightarrow> slot \<Rightarrow> bool" where
  "slot_at rid d ts r = (ra_room_id r = rid \<and> availability_date r = d \<and> ra_time_slot r = ts)"

text \<open>
  \<^verbatim>\<open>SELECT ra.* FROM room_availability ra WHERE ra.room_id = ? AND
  ra.availability_date = ? ORDER BY ra.time_slot\<close>
\<close>

definition slots_of :: "string \<Rightarrow> date \<Rightarrow> db \<Rightarrow> slot list" where
  "slots_of rid d s =
     sort_key ra_time_slot
       (filter (\<lambda>r. ra_room_id r = rid \<and> availability_date r = d) (room_availability s))"

text \<open>
  Modelled from the spec: the schema of \<^verbatim>\<open>room_availability\<close> is not in the source. The
  spec identifies a slot by room, date and time-slot label, and \<^verbatim>\<open>INSERT IGNORE\<close>
  relies on that key: a row whose key is already present is skipped without an error.
\<close>

definition insert_ignore :: "slot \<Rightarrow> slot list \<Rightarrow> slot list" where
  "insert_ignore r rows =
     (if list_ex (slot_at (ra_room_id r) (availability_date r) (ra_time_slot r)) rows
      then rows else rows @ [r])"

definition new_slot :: "string \<Rightarrow> string \<Rightarrow> date \<Rightarrow> slot" where
  "new_slot ts rid d =
     \<lparr>ra_time_slot = ts, ra_status = Free, ra_room_id = rid, availability_date = d,
      ra_student_id = None, ra_booking_id = None\<rparr>"

section \<open>The daily reset\<close>

text \<open>
  \<^verbatim>\<open>resetRoomStatuses\<close> (app.js 15-33): tomorrow is the local calendar day plus one;
  \<^verbatim>\<open>UPDATE room_availability SET status = 'free', student_id = NULL, booking_id = NULL
  WHERE availability_date = ? AND status IN ('pending', 'reserved')\<close>. An error of the
  statement is logged only.
\<close>

definition resetRoomStatuses :: "bool \<Rightarrow> clock \<Rightarrow> db \<Rightarrow> db" where
  "resetRoomStatuses err clk s =
     (let tomorrow = local_day clk + 1 in
      if err then s
      else s\<lparr>room_availability :=
             update_where
               (\<lambda>r. availability_date r = tomorrow \<and> (ra_status r = Pending \<or> ra_status r = Reserved))
               (\<lambda>r. r\<lparr>ra_status := Free, ra_student_id := None, ra_booking_id := None\<rparr>)
               (room_availability s)\<rparr>)"

section \<open>Time slots of a day\<close>

text \<open>
  \<^verbatim>\<open>isTimeSlotValid\<close> (app.js 35-51): the label must split at \<^verbatim>\<open>-\<close> into two pieces;
  the second piece is split at \<^verbatim>\<open>:\<close> into hour and minute, and the slot is valid while
  the local time is before that hour and minute of the local day. A piece that does not
  parse gives an invalid date, and the comparison with it is false; so does a time
  beyond the range of a \<^verbatim>\<open>Date\<close>. The day is taken to have no clock change.
\<close>

definition isTimeSlotValid :: "clock \<Rightarrow> string \<Rightarrow> bool" where
  "isTimeSlotValid clk label =
     (case js_split CHR ''-'' label of
        [startTime, endTime] \<Rightarrow>
          (case js_split CHR '':'' endTime of
             endHour # endMinute # _ \<Rightarrow>
               (case (parseInt endHour, parseInt endMinute) of
                  (Some h, Some m) \<Rightarrow>
                    (let slotEnd = h * 3600000 + m * 60000;
                         midnight = int (epoch_ms clk) - int (local_ms clk)
                     in \<bar>midnight + slotEnd\<bar> \<le> 8640000000000000 \<and> int (local_ms clk) < slotEnd)
                | _ \<Rightarrow> False)
           | _ \<Rightarrow> False)
      | _ \<Rightarrow> False)"

definition timeSlots :: "string list" where
  "timeSlots = [''08:00-10:00'', ''10:00-12:00'', ''13:00-15:00'', ''15:00-17:00'']"

record slots_faults =
  sf_select :: bool
  sf_insert :: "string \<Rightarrow> bool"
  sf_fetch :: bool

text \<open>
  \<^verbatim>\<open>GET /api/rooms/:roomId/time-slots\<close> (app.js 244-311). The rows of the room for today
  are read and filtered by \<^const>\<open>isTimeSlotValid\<close>; if any is left they are the answer.
  Otherwise one \<^verbatim>\<open>INSERT IGNORE\<close> is issued for each configured label that is still
  valid (\<open>sf_insert\<close> says which of them fail); the errors are collected, and only when
  there is none are the rows read again.
\<close>

definition get_time_slots :: "slots_faults \<Rightarrow> clock \<Rightarrow> string \<Rightarrow> db \<Rightarrow> slot list reply \<times> db" where
  "get_time_slots flt clk rid s =
     (if sf_select flt then (Failed 500 ''Server error'', s)
      else
        let results = slots_of rid (today clk) s;
            validSlots = filter (\<lambda>r. isTimeSlotValid clk (ra_time_slot r)) results
        in if validSlots \<noteq> [] then (Json validSlots, s)
           else
             let validTimeSlots = filter (isTimeSlotValid clk) timeSlots
             in if validTimeSlots = [] then (Json [], s)
                else
                  let s1 = s\<lparr>room_availability :=
                             foldl (\<lambda>rows label.
                                      if sf_insert flt label then rows
                                      else insert_ignore (new_slot label rid (today clk)) rows)
                                   (room_availability s) validTimeSlots\<rparr>
                  in if list_ex (sf_insert flt) validTimeSlots
                     then (Failed 500 ''Failed to initialize time slots'', s1)
                     else if sf_fetch flt then (Failed 500 ''Server error'', s1)
                     else (Json (filter (\<lambda>r. isTimeSlotValid clk (ra_time_slot r))
                                   (slots_of rid (today clk) s1)), s1))"

record legacy_faults =
  lf_select :: bool
  lf_insert :: bool
  lf_fetch :: bool

text \<open>
  The older handler of the same route (part_000 105-158): the rows are returned
  unfiltered when there are any; otherwise the four default rows go into one multi-row
  \<^verbatim>\<open>INSERT IGNORE\<close> statement, which executes as a whole or fails as a whole.
\<close>

definition get_time_slots_legacy :: "legacy_faults \<Rightarrow> clock \<Rightarrow> string \<Rightarrow> db \<Rightarrow> slot list reply \<times> db" where
  "get_time_slots_legacy flt clk rid s =
     (if lf_select flt then (Failed 500 ''Server error'', s)
      else
        let results = slots_of rid (today clk) s
        in if results \<noteq> [] then (Json results, s)
           else if lf_insert flt then (Failed 500 ''Failed to create time slots'', s)
           else
             let s1 = s\<lparr>room_availability :=
                        foldl (\<lambda>rows label. insert_ignore (new_slot label rid (today clk)) rows)
                              (room_availability s) timeSlots\<rparr>
             in if lf_fetch flt then (Failed 500 ''Server error'', s1)
                else (Json (slots_of rid (today clk) s1), s1))"

section \<open>Booking a slot\<close>

record book_req =
  studentId :: string
  roomId :: string
  timeSlot :: string

record book_faults =
  bf_check :: bool
  bf_slot :: bool
  bf_status :: bool
  bf_insert :: bool
  bf_update :: bool
  bf_rollback :: bool

text \<open>
  \<^verbatim>\<open>slotCheckSql\<close>: \<^verbatim>\<open>... WHERE room_id = ? AND availability_date = ? AND time_slot = ?
  AND status = 'free' AND (student_id IS NULL OR student_id = '')\<close>.
\<close>

definition free_unbound :: "slot \<Rightarrow> bool" where
  "free_unbound r = (ra_status r = Free \<and> (ra_student_id r = None \<or> ra_student_id r = Some []))"

text \<open>
  The message of a rejected booking, from the first row that \<^verbatim>\<open>statusCheckSql\<close> returns
  (app.js 353-358); \<^verbatim>\<open>slotStatus.student_id\<close> is truthy when it is neither
  \<^verbatim>\<open>NULL\<close> nor the empty string.
\<close>

definition errorMessage :: "slot \<Rightarrow> string" where
  "errorMessage slotStatus =
     (if ra_status slotStatus = Pending then ''Time slot is already pending approval''
      else if ra_status slotStatus = Reserved then ''Time slot is already reserved''
      else if ra_student_id slotStatus \<noteq> None \<and> ra_student_id slotStatus \<noteq> Some []
        then ''Time slot is already booked by another student''
      else ''Time slot not available'')"

definition new_booking :: "string \<Rightarrow> book_req \<Rightarrow> date \<Rightarrow> booking" where
  "new_booking bid req d =
     \<lparr>b_id = bid, b_student_id = studentId req, b_room_id = roomId req, booking_date = d,
      b_time_slot = timeSlot req, b_status = ''Pending'', approved_by = None, approved_at = None\<rparr>"

text \<open>
  \<^verbatim>\<open>POST /api/bookings\<close> (app.js 313-392). A field of the request that is missing or
  empty is the empty string here. The statements, in order: \<open>bf_check\<close> the student's
  bookings of today, \<open>bf_slot\<close> the free and unbound row of the slot, \<open>bf_status\<close> the
  slot's row for the message, \<open>bf_insert\<close> the new booking, \<open>bf_update\<close> the slot's row set
  to pending, \<open>bf_rollback\<close> the delete of the new booking after a failed update (issued
  with no callback: its error is not looked at).
\<close>

definition post_bookings :: "book_faults \<Rightarrow> clock \<Rightarrow> book_req \<Rightarrow> db \<Rightarrow> string reply \<times> db" where
  "post_bookings flt clk req s =
     (if studentId req = [] \<or> roomId req = [] \<or> timeSlot req = []
        then (Failed 400 ''Missing required fields'', s)
      else if \<not> isTimeSlotValid clk (timeSlot req)
        then (Failed 400 ''This time slot has already passed and cannot be booked'', s)
      else if bf_check flt then (Failed 500 ''Server error checking bookings'', s)
      else if filter (\<lambda>b. b_student_id b = studentId req \<and> booking_date b = today clk) (bookings s) \<noteq> []
        then (Failed 400 ''You can only book one slot per day'', s)
      else if bf_slot flt then (Failed 500 ''Server error checking availability'', s)
      else if filter (\<lambda>r. slot_at (roomId req) (today clk) (timeSlot req) r \<and> free_unbound r)
                (room_availability s) = []
        then
          (case (if bf_status flt then []
                 else filter (slot_at (roomId req) (today clk) (timeSlot req)) (room_availability s)) of
             [] \<Rightarrow> (Failed 400 ''Time slot not available'', s)
           | slotStatus # _ \<Rightarrow> (Failed 400 (errorMessage slotStatus), s))
      else
        let bookingId = ''book_'' @ digits_of (epoch_ms clk)
        in if bf_insert flt then (Failed 500 ''Database error creating booking'', s)
           else
             let s1 = s\<lparr>bookings := bookings s @ [new_booking bookingId req (today clk)]\<rparr>
             in if bf_update flt
                then (Failed 500 ''Booking update failed'',
                      if bf_rollback flt then s1
                      else s1\<lparr>bookings := delete_where (\<lambda>b. b_id b = bookingId) (bookings s1)\<rparr>)
                else (Json bookingId,
                      s1\<lparr>room_availability :=
                           update_where (slot_at (roomId req) (today clk) (timeSlot req))
                             (\<lambda>r. r\<lparr>ra_status := Pending, ra_student_id := Some (studentId req)\<rparr>)
                             (room_availability s1)\<rparr>))"

text \<open>
  The condition under which a call of \<^const>\<open>post_bookings\<close> gets as far as the look at
  the slot: the fields are there, the slot has not ended, and the first two statements
  execute and find no booking of the student for today.
\<close>

definition reaches_slot_check :: "book_faults \<Rightarrow> clock \<Rightarrow> book_req \<Rightarrow> db \<Rightarrow> bool" where
  "reaches_slot_check flt clk req s =
     (studentId req \<noteq> [] \<and> roomId req \<noteq> [] \<and> timeSlot req \<noteq> [] \<and>
      isTimeSlotValid clk (timeSlot req) \<and>
      \<not> bf_check flt \<and>
      filter (\<lambda>b. b_student_id b = studentId req \<and> booking_date b = today clk) (bookings s) = [] \<and>
      \<not> bf_slot flt)"

section \<open>Booking, statement by statement\<close>

text \<open>
  The handler of \<^verbatim>\<open>POST /api/bookings\<close> is a chain of callbacks: each statement is
  sent to the store on its own, outside any transaction, and the next one is issued
  when its callback runs. Between two statements of one call the store may execute
  statements of other calls. \<^const>\<open>post_bookings\<close> is the chain run without
  interruption; here the same chain is cut at its statements, so that several calls can
  be interleaved. A call is at one of its statements or has answered.
\<close>

datatype book_pc =
    At_check
  | At_slot
  | At_status
  | At_insert
  | At_update string
  | At_rollback string
  | Done "string reply"

definition book_step :: "book_faults \<Rightarrow> clock \<Rightarrow> book_req \<Rightarrow> book_pc \<Rightarrow> db \<Rightarrow> book_pc \<times> db" where
  "book_step flt clk req pc s =
     (case pc of
        At_check \<Rightarrow>
          (if studentId req = [] \<or> roomId req = [] \<or> timeSlot req = []
             then (Done (Failed 400 ''Missing required fields''), s)
           else if \<not> isTimeSlotValid clk (timeSlot req)
             then (Done (Failed 400 ''This time slot has already passed and cannot be booked''), s)
           else if bf_check flt then (Done (Failed 500 ''Server error checking bookings''), s)
           else if filter (\<lambda>b. b_student_id b = studentId req \<and> booking_date b = today clk)
                     (bookings s) \<noteq> []
             then (Done (Failed 400 ''You can only book one slot per day''), s)
           else (At_slot, s))
      | At_slot \<Rightarrow>
          (if bf_slot flt then (Done (Failed 500 ''Server error checking availability''), s)
           else if filter (\<lambda>r. slot_at (roomId req) (today clk) (timeSlot req) r \<and> free_unbound r)
                     (room_availability s) = []
             then (At_status, s)
           else (At_insert, s))
      | At_status \<Rightarrow>
          (case (if bf_status flt then []
                 else filter (slot_at (roomId req) (today clk) (timeSlot req)) (room_availability s)) of
             [] \<Rightarrow> (Done (Failed 400 ''Time slot not available''), s)
           | slotStatus # _ \<Rightarrow> (Done (Failed 400 (errorMessage slotStatus)), s))
      | At_insert \<Rightarrow>
          (let bookingId = ''book_'' @ digits_of (epoch_ms clk)
           in if bf_insert flt then (Done (Failed 500 ''Database error creating booking''), s)
              else (At_update bookingId,
                    s\<lparr>bookings := bookings s @ [new_booking bookingId req (today clk)]\<rparr>))
      | At_update bookingId \<Rightarrow>
          (if bf_update flt then (At_rollback bookingId, s)
           else (Done (Json bookingId),
                 s\<lparr>room_availability :=
                      update_where (slot_at (roomId req) (today clk) (timeSlot req))
                        (\<lambda>r. r\<lparr>ra_status := Pending, ra_student_id := Some (studentId req)\<rparr>)
                        (room_availability s)\<rparr>))
      | At_rollback bookingId \<Rightarrow>
          (Done (Failed 500 ''Booking update failed''),
           if bf_rollback flt then s
           else s\<lparr>bookings := delete_where (\<lambda>b. b_id b = bookingId) (bookings s)\<rparr>)
      | Done rep \<Rightarrow> (Done rep, s))"

text \<open>One call run on its own for a number of statements.\<close>

fun book_steps :: "nat \<Rightarrow> book_faults \<Rightarrow> clock \<Rightarrow> book_req \<Rightarrow> book_pc \<times> db \<Rightarrow> book_pc \<times> db" where
  "book_steps 0 flt clk req st = st"
| "book_steps (Suc n) flt clk req (pc, s) = book_steps n flt clk req (book_step flt clk req pc s)"

text \<open>
  Several calls against one store: the schedule names, statement by statement, the call
  whose next statement the store executes.
\<close>

record call =
  c_faults :: book_faults
  c_clock :: clock
  c_req :: book_req

fun run_schedule :: "call list \<Rightarrow> nat list \<Rightarrow> book_pc list \<times> db \<Rightarrow> book_pc list \<times> db" where
  "run_schedule calls [] st = st"
| "run_schedule calls (i # sched) (pcs, s) =
     (if i < length calls \<and> i < length pcs
      then let c = calls ! i;
               (pc', s') = book_step (c_faults c) (c_clock c) (c_req c) (pcs ! i) s
           in run_schedule calls sched (pcs[i := pc'], s')
      else run_schedule calls sched (pcs, s))"

section \<open>Deciding a booking\<close>

record decide_faults =
  df_get :: bool
  df_update :: bool
  df_avail :: bool

text \<open>
  \<^verbatim>\<open>let availabilityStatus = status.toLowerCase() === 'approved' ? 'reserved' : 'free';\<close>
\<close>

definition availabilityStatus :: "string \<Rightarrow> slot_status" where
  "availabilityStatus status = (if toLowerCase status = ''approved'' then Reserved else Free)"

text \<open>
  \<^verbatim>\<open>PUT /api/bookings/:bookingId/status\<close> (app.js 471-516), for a \<^verbatim>\<open>status\<close> that is a
  string; \<^verbatim>\<open>approvedBy\<close> may be absent. The statements: \<open>df_get\<close> reads the booking,
  \<open>df_update\<close> writes status, approver and \<^verbatim>\<open>NOW()\<close> to it, \<open>df_avail\<close> writes the slot's
  status \<^verbatim>\<open>WHERE room_id = ? AND availability_date = ? AND time_slot = ? AND
  student_id = ?\<close> with the columns of the booking that was read. An error of the last
  statement is logged and the answer is still the success.
\<close>

definition put_booking_status ::
    "decide_faults \<Rightarrow> clock \<Rightarrow> string \<Rightarrow> string \<Rightarrow> string option \<Rightarrow> db \<Rightarrow> string reply \<times> db" where
  "put_booking_status flt clk bookingId status approvedBy s =
     (if df_get flt then (Failed 500 ''Failed to get booking details'', s)
      else
        (case filter (\<lambda>b. b_id b = bookingId) (bookings s) of
           [] \<Rightarrow> (Failed 404 ''Booking not found'', s)
         | bk # _ \<Rightarrow>
             if df_update flt then (Failed 500 ''Update failed'', s)
             else
               let s1 = s\<lparr>bookings :=
                          update_where (\<lambda>b. b_id b = bookingId)
                            (\<lambda>b. b\<lparr>b_status := status, approved_by := approvedBy,
                                   approved_at := Some (db_now clk)\<rparr>)
                            (bookings s)\<rparr>;
                   s2 = (if df_avail flt then s1
                         else s1\<lparr>room_availability :=
                                update_where
                                  (\<lambda>r. slot_at (b_room_id bk) (booking_date bk) (b_time_slot bk) r \<and>
                                        ra_student_id r = Some (b_student_id bk))
                                  (\<lambda>r. r\<lparr>ra_status := availabilityStatus status\<rparr>)
                                  (room_availability s1)\<rparr>)
               in (Json ''Booking status updated'', s2)))"

section \<open>Disabling a room, enabling a slot\<close>

record disable_faults =
  rf_check :: bool
  rf_slots :: bool
  rf_room :: bool

text \<open>
  \<^verbatim>\<open>PATCH /api/rooms/:roomId/disable\<close> (app.js 831-889): \<^verbatim>\<open>SELECT COUNT(*) as
  nonFreeCount ... WHERE room_id = ? AND availability_date = ? AND status != 'free'\<close>; a
  positive count is refused. Then the free slots of today are set to disabled and the
  room is marked disabled. The success carries the number of slots changed.
\<close>

definition disable_room :: "disable_faults \<Rightarrow> clock \<Rightarrow> string \<Rightarrow> db \<Rightarrow> nat reply \<times> db" where
  "disable_room flt clk rid s =
     (if rf_check flt then (Failed 500 ''Server error'', s)
      else
        let nonFreeCount =
              length (filter (\<lambda>r. ra_room_id r = rid \<and> availability_date r = today clk \<and>
                                   ra_status r \<noteq> Free) (room_availability s))
        in if nonFreeCount > 0
           then (Failed 400 ''Cannot disable room with booked or pending slots'', s)
           else if rf_slots flt then (Failed 500 ''Failed to disable time slots'', s)
           else
             let cond = (\<lambda>r. ra_room_id r = rid \<and> availability_date r = today clk \<and> ra_status r = Free);
                 affectedRows = length (filter cond (room_availability s));
                 s1 = s\<lparr>room_availability :=
                        update_where cond (\<lambda>r. r\<lparr>ra_status := Disabled\<rparr>) (room_availability s)\<rparr>
             in if rf_room flt then (Failed 500 ''Failed to disable room'', s1)
                else (Json affectedRows,
                      s1\<lparr>rooms := update_where (\<lambda>r. room_id r = rid)
                                     (\<lambda>r. r\<lparr>is_disabled := True\<rparr>) (rooms s1)\<rparr>))"

text \<open>
  The staff listing \<^verbatim>\<open>GET /api/rooms/all\<close> (app.js 196-242) counts, for each room, its
  slots of today by status (\<^verbatim>\<open>SELECT COUNT(*) FROM room_availability ra WHERE ra.room_id =
  r.id AND ra.availability_date = ? AND ra.status = '...'\<close>) and tells the client
  whether the room can be disabled: \<^verbatim>\<open>can_disable: room.free_slots > 0 &&
  room.pending_slots === 0 && room.reserved_slots === 0\<close>.
\<close>

definition count_slots :: "string \<Rightarrow> date \<Rightarrow> slot_status \<Rightarrow> db \<Rightarrow> nat" where
  "count_slots rid d st s =
     length (filter (\<lambda>r. ra_room_id r = rid \<and> availability_date r = d \<and> ra_status r = st)
               (room_availability s))"

definition can_disable :: "clock \<Rightarrow> string \<Rightarrow> db \<Rightarrow> bool" where
  "can_disable clk rid s =
     (count_slots rid (today clk) Free s > 0 \<and>
      count_slots rid (today clk) Pending s = 0 \<and>
      count_slots rid (today clk) Reserved s = 0)"

record enable_faults =
  ef_slot :: bool
  ef_room :: bool

text \<open>
  \<^verbatim>\<open>PATCH /api/rooms/:roomId/time-slots/:timeSlot/enable\<close> (app.js 981-1001):
  \<^verbatim>\<open>UPDATE room_availability SET status = 'free' WHERE room_id = ? AND
  availability_date = ? AND time_slot = ? AND status = 'disabled'\<close>, then
  \<^verbatim>\<open>UPDATE rooms SET is_disabled = 0 WHERE id = ?\<close>, issued with no callback, and the
  success.
\<close>

definition enable_time_slot :: "enable_faults \<Rightarrow> clock \<Rightarrow> string \<Rightarrow> string \<Rightarrow> db \<Rightarrow> unit reply \<times> db" where
  "enable_time_slot flt clk rid label s =
     (if ef_slot flt then (Failed 500 ''Failed to enable time slot'', s)
      else
        let s1 = s\<lparr>room_availability :=
                   update_where (\<lambda>r. slot_at rid (today clk) label r \<and> ra_status r = Disabled)
                     (\<lambda>r. r\<lparr>ra_status := Free\<rparr>) (room_availability s)\<rparr>;
            s2 = (if ef_room flt then s1
                  else s1\<lparr>rooms := update_where (\<lambda>r. room_id r = rid)
                                      (\<lambda>r. r\<lparr>is_disabled := False\<rparr>) (rooms s1)\<rparr>)
        in (Json (), s2))"

section \<open>Example stores\<close>

text \<open>
  A clock reading (07:00 local time on day 20000, local time equal to UTC) and small
  stores, on which the properties below are instantiated.
\<close>

definition clkA :: clock where
  "clkA = \<lparr>today = 20000, local_day = 20000, local_ms = 25200000,
           epoch_ms = 1728025200000, db_now = 1728025200\<rparr>"

definition dbR :: db where
  "dbR = \<lparr>rooms = [\<lparr>room_id = ''R1'', is_disabled = False\<rparr>],
          room_availability =
            [\<lparr>ra_time_slot = ''08:00-10:00'', ra_status = Reserved, ra_room_id = ''R1'',
              availability_date = 20001, ra_student_id = Some ''S1'', ra_booking_id = None\<rparr>,
             \<lparr>ra_time_slot = ''08:00-10:00'', ra_status = Reserved, ra_room_id = ''R1'',
              availability_date = 20000, ra_student_id = Some ''S2'', ra_booking_id = None\<rparr>,
             \<lparr>ra_time_slot = ''10:00-12:00'', ra_status = Disabled, ra_room_id = ''R1'',
              availability_date = 20001, ra_student_id = None, ra_booking_id = None\<rparr>],
          bookings = []\<rparr>"

definition dbE :: db where
  "dbE = \<lparr>rooms = [\<lparr>room_id = ''R1'', is_disabled = True\<rparr>, \<lparr>room_id = ''R2'', is_disabled = True\<rparr>],
          room_availability =
            [\<lparr>ra_time_slot = ''08:00-10:00'', ra_status = Free, ra_room_id = ''R1'',
              availability_date = 20000, ra_student_id = None, ra_booking_id = None\<rparr>,
             \<lparr>ra_time_slot = ''10:00-12:00'', ra_status = Disabled, ra_room_id = ''R1'',
              availability_date = 20000, ra_student_id = None, ra_booking_id = None\<rparr>],
          bookings = []\<rparr>"

definition dbF :: db where
  "dbF = \<lparr>rooms = [\<lparr>room_id = ''R1'', is_disabled = False\<rparr>, \<lparr>room_id = ''R2'', is_disabled = False\<rparr>],
          room_availability =
            [\<lparr>ra_time_slot = ''08:00-10:00'', ra_status = Free, ra_room_id = ''R1'',
              availability_date = 20000, ra_student_id = None, ra_booking_id = None\<rparr>,
             \<lparr>ra_time_slot = ''10:00-12:00'', ra_status = Free, ra_room_id = ''R1'',
              availability_date = 20000, ra_student_id = None, ra_booking_id = None\<rparr>,
             \<lparr>ra_time_slot = ''08:00-10:00'', ra_status = Reserved, ra_room_id = ''R2'',
              availability_date = 20000, ra_student_id = Some ''S9'', ra_booking_id = None\<rparr>],
          bookings = []\<rparr>"

definition dbP :: db where
  "dbP = \<lparr>rooms = [\<lparr>room_id = ''R1'', is_disabled = False\<rparr>],
          room_availability =
            [\<lparr>ra_time_slot = ''08:00-10:00'', ra_status = Pending, ra_room_id = ''R1'',
              availability_date = 20000, ra_student_id = Some ''S1'', ra_booking_id = None\<rparr>],
          bookings =
            [\<lparr>b_id = ''book_1728025100000'', b_student_id = ''S1'', b_room_id = ''R1'',
              booking_date = 20000, b_time_slot = ''08:00-10:00'', b_status = ''Pending'',
              approved_by = None, approved_at = None\<rparr>]\<rparr>"

text \<open>The same day at 11:00 local time, when the first configured slot has ended.\<close>

definition clkB :: clock where
  "clkB = \<lparr>today = 20000, local_day = 20000, local_ms = 39600000,
           epoch_ms = 1728039600000, db_now = 1728039600\<rparr>"

text \<open>A room with two free slots today, and two students who book the same slot.\<close>

definition db0 :: db where
  "db0 = \<lparr>rooms = [\<lparr>room_id = ''R1'', is_disabled = False\<rparr>],
          room_availability =
            [new_slot ''08:00-10:00'' ''R1'' 20000, new_slot ''10:00-12:00'' ''R1'' 20000],
          bookings = []\<rparr>"

definition clkA2 :: clock where
  "clkA2 = \<lparr>today = 20000, local_day = 20000, local_ms = 25200001,
            epoch_ms = 1728025200001, db_now = 1728025200\<rparr>"

definition no_faults :: book_faults where
  "no_faults = \<lparr>bf_check = False, bf_slot = False, bf_status = False, bf_insert = False,
                bf_update = False, bf_rollback = False\<rparr>"

definition call_S1 :: call where
  "call_S1 = \<lparr>c_faults = no_faults, c_clock = clkA,
              c_req = \<lparr>studentId = ''S1'', roomId = ''R1'', timeSlot = ''08:00-10:00''\<rparr>\<rparr>"

definition call_S2 :: call where
  "call_S2 = \<lparr>c_faults = no_faults, c_clock = clkA2,
              c_req = \<lparr>studentId = ''S2'', roomId = ''R1'', timeSlot = ''08:00-10:00''\<rparr>\<rparr>"

text \<open>
  A clock west of UTC: 20:00 local time on day 20000 is 01:00 UTC on day 20001.
\<close>

definition clkW :: clock where
  "clkW = \<lparr>today = 20001, local_day = 20000, local_ms = 72000000,
           epoch_ms = 1728090000000, db_now = 1728090000\<rparr>"

section \<open>Properties\<close>

subsection \<open>Helper facts\<close>

lemma digits_of_small: "n < 10 \<Longrightarrow> digits_of n = [digit_char n]"
  by (simp add: digits_of.simps [of n])

lemma digits_of_large: "10 \<le> n \<Longrightarrow> digits_of n = digits_of (n div 10) @ [digit_char (n mod 10)]"
  by (simp add: digits_of.simps [of n])

lemma endsWith_iff: "endsWith s t \<longleftrightarrow> (\<exists>p. s = p @ t)"
proof
  assume "endsWith s t"
  then have "s = take (length s - length t) s @ t"
    by (metis append_take_drop_id endsWith_def)
  then show "\<exists>p. s = p @ t" ..
next
  assume "\<exists>p. s = p @ t"
  then show "endsWith s t"
    by (auto simp: endsWith_def)
qed

subsection \<open>C9: the user type is a function of the email's suffix\<close>

text \<open>
  C9. The user type derived at login depends on the email only: every email ending in
  \<^verbatim>\<open>@mfu.th\<close> is staff, every email ending in \<^verbatim>\<open>@mfu.ac.th\<close> is lecturer, and every
  other email is student. (No email ends in both suffixes, so the order of the two tests
  in the source does not matter.)
\<close>

theorem userType_by_suffix:
  "((\<exists>p. email = p @ ''@mfu.th'') \<longrightarrow> userType email = ''staff'') \<and>
   ((\<exists>p. email = p @ ''@mfu.ac.th'') \<longrightarrow> userType email = ''lecturer'') \<and>
   (\<not> (\<exists>p. email = p @ ''@mfu.th'') \<and> \<not> (\<exists>p. email = p @ ''@mfu.ac.th'')
      \<longrightarrow> userType email = ''student'')"
proof -
  have disjoint: "\<not> endsWith (p @ ''@mfu.ac.th'') ''@mfu.th''" for p
    by (simp add: endsWith_def)
  show ?thesis
    unfolding userType_def endsWith_iff [symmetric]
    using disjoint by (auto simp: endsWith_iff)
qed

theorem userType_by_suffix_witness:
  "userType ''somchai@mfu.th'' = ''staff'' \<and>
   userType ''anong@mfu.ac.th'' = ''lecturer'' \<and>
   userType ''6531501001@lamduan.mfu.ac.th.example'' = ''student''"
proof -
  have a: "\<exists>p. ''somchai@mfu.th'' = p @ ''@mfu.th''"
    by (rule exI [of _ "''somchai''"]) simp
  have b: "\<exists>p. ''anong@mfu.ac.th'' = p @ ''@mfu.ac.th''"
    by (rule exI [of _ "''anong''"]) simp
  have c: "\<not> (\<exists>p. ''6531501001@lamduan.mfu.ac.th.example'' = p @ ''@mfu.th'') \<and>
           \<not> (\<exists>p. ''6531501001@lamduan.mfu.ac.th.example'' = p @ ''@mfu.ac.th'')"
    unfolding endsWith_iff [symmetric] by (simp add: endsWith_def)
  from userType_by_suffix [of "''somchai@mfu.th''"] a
       userType_by_suffix [of "''anong@mfu.ac.th''"] b
       userType_by_suffix [of "''6531501001@lamduan.mfu.ac.th.example''"] c
  show ?thesis by blast
qed


subsection \<open>C6: the daily reset\<close>

text \<open>
  C6, as the code has it. The reset computes tomorrow from the local calendar day of the
  run, while the handlers date the slots with the UTC day. A run whose statement fails
  changes nothing. A run whose statement executes sets every slot that is dated one
  calendar day ahead of the local day of the run and is pending or reserved to free and
  clears its bound student (and its booking link); every other slot is left as it was:
  the slots of any other date, in particular those dated with the local day of the run,
  and those dated with the handlers' today whenever that day is not the local day plus
  one, and tomorrow's free and disabled slots. Rooms and bookings are not touched.
  Running the reset again on the result changes nothing.
\<close>

theorem reset_frees_tomorrow_only:
  "let s' = resetRoomStatuses err clk s; tomorrow = local_day clk + 1 in
     (err \<longrightarrow> s' = s) \<and>
     (\<not> err \<longrightarrow>
        length (room_availability s') = length (room_availability s) \<and>
        (\<forall>i < length (room_availability s).
           let r = room_availability s ! i; r' = room_availability s' ! i in
             (availability_date r = tomorrow \<and> (ra_status r = Pending \<or> ra_status r = Reserved)
                \<longrightarrow> r' = r\<lparr>ra_status := Free, ra_student_id := None, ra_booking_id := None\<rparr>) \<and>
             (availability_date r \<noteq> tomorrow \<or> ra_status r = Free \<or> ra_status r = Disabled
                \<longrightarrow> r' = r) \<and>
             (availability_date r = local_day clk \<longrightarrow> r' = r) \<and>
             (today clk \<noteq> tomorrow \<and> availability_date r = today clk \<longrightarrow> r' = r)) \<and>
        rooms s' = rooms s \<and> bookings s' = bookings s \<and>
        resetRoomStatuses False clk s' = s')"
proof -
  let ?c = "\<lambda>r. availability_date r = local_day clk + 1 \<and> (ra_status r = Pending \<or> ra_status r = Reserved)"
  let ?f = "\<lambda>r::slot. r\<lparr>ra_status := Free, ra_student_id := None, ra_booking_id := None\<rparr>"
  have idem: "update_where ?c ?f (update_where ?c ?f rows) = update_where ?c ?f rows" for rows
    by (induction rows) (auto simp: update_where_def)
  have pt: "i < length rows \<Longrightarrow> update_where ?c ?f rows ! i = (if ?c (rows ! i) then ?f (rows ! i) else rows ! i)" for i rows
    by (simp add: update_where_def)
  have len: "length (update_where ?c ?f rows) = length rows" for rows
    by (simp add: update_where_def)
  show ?thesis
  proof (cases err)
    case True
    then show ?thesis
      by (simp add: resetRoomStatuses_def)
  next
    case False
    then show ?thesis
      unfolding Let_def resetRoomStatuses_def
      by (auto simp: idem pt len)
  qed
qed

theorem reset_frees_tomorrow_only_witness:
  "room_availability (resetRoomStatuses False clkA dbR) ! 0 =
     \<lparr>ra_time_slot = ''08:00-10:00'', ra_status = Free, ra_room_id = ''R1'',
      availability_date = 20001, ra_student_id = None, ra_booking_id = None\<rparr> \<and>
   room_availability (resetRoomStatuses False clkA dbR) ! 1 = room_availability dbR ! 1 \<and>
   room_availability (resetRoomStatuses False clkA dbR) ! 2 = room_availability dbR ! 2 \<and>
   resetRoomStatuses True clkA dbR = dbR"
proof -
  have n: "length (room_availability dbR) = 3"
    by (simp add: dbR_def)
  have r0: "room_availability dbR ! 0 =
     \<lparr>ra_time_slot = ''08:00-10:00'', ra_status = Reserved, ra_room_id = ''R1'',
      availability_date = 20001, ra_student_id = Some ''S1'', ra_booking_id = None\<rparr>"
    by (simp add: dbR_def)
  have r1: "today clkA \<noteq> 20001 \<and> availability_date (room_availability dbR ! 1) = today clkA"
    by (simp add: dbR_def clkA_def)
  have r2: "ra_status (room_availability dbR ! 2) = Disabled"
    by (simp add: dbR_def)
  have t: "local_day clkA + 1 = 20001"
    by (simp add: clkA_def)
  from reset_frees_tomorrow_only [of False clkA dbR]
  have all: "\<forall>i < 3.
        let r = room_availability dbR ! i; r' = room_availability (resetRoomStatuses False clkA dbR) ! i in
          (availability_date r = 20001 \<and> (ra_status r = Pending \<or> ra_status r = Reserved)
             \<longrightarrow> r' = r\<lparr>ra_status := Free, ra_student_id := None, ra_booking_id := None\<rparr>) \<and>
          (availability_date r \<noteq> 20001 \<or> ra_status r = Free \<or> ra_status r = Disabled
             \<longrightarrow> r' = r) \<and>
          (today clkA \<noteq> 20001 \<and> availability_date r = today clkA \<longrightarrow> r' = r)"
    unfolding Let_def n t by simp
  from all have "let r = room_availability dbR ! 0; r' = room_availability (resetRoomStatuses False clkA dbR) ! 0 in
          (availability_date r = 20001 \<and> (ra_status r = Pending \<or> ra_status r = Reserved)
             \<longrightarrow> r' = r\<lparr>ra_status := Free, ra_student_id := None, ra_booking_id := None\<rparr>)"
    by (simp add: Let_def)
  then have a: "room_availability (resetRoomStatuses False clkA dbR) ! 0 =
     \<lparr>ra_time_slot = ''08:00-10:00'', ra_status = Free, ra_room_id = ''R1'',
      availability_date = 20001, ra_student_id = None, ra_booking_id = None\<rparr>"
    by (simp add: Let_def r0)
  from all have b: "room_availability (resetRoomStatuses False clkA dbR) ! 1 = room_availability dbR ! 1"
    using r1 by (simp add: Let_def)
  from all have c: "room_availability (resetRoomStatuses False clkA dbR) ! 2 = room_availability dbR ! 2"
    using r2 by (simp add: Let_def)
  from reset_frees_tomorrow_only [of True clkA dbR]
  have d: "resetRoomStatuses True clkA dbR = dbR"
    by (simp add: Let_def)
  from a b c d show ?thesis by blast
qed

text \<open>
  The claim as stated fails in two ways. On a server west of UTC in the evening (here
  20:00 local time on day 20000, which is 01:00 UTC on day 20001) the day that the
  handlers call today is the reset's tomorrow, and a reserved slot dated today is freed.
  And a run whose statement fails frees nothing: tomorrow's reserved slot stays
  reserved.
\<close>

theorem reset_counterexample:
  "availability_date (room_availability dbR ! 0) = today clkW \<and>
   ra_status (room_availability dbR ! 0) = Reserved \<and>
   room_availability (resetRoomStatuses False clkW dbR) ! 0 =
     \<lparr>ra_time_slot = ''08:00-10:00'', ra_status = Free, ra_room_id = ''R1'',
      availability_date = 20001, ra_student_id = None, ra_booking_id = None\<rparr> \<and>
   availability_date (room_availability dbR ! 0) = local_day clkA + 1 \<and>
   room_availability (resetRoomStatuses True clkA dbR) ! 0 = room_availability dbR ! 0"
  by (simp add: resetRoomStatuses_def update_where_def dbR_def clkW_def clkA_def)


subsection \<open>Facts about the statements\<close>

lemma update_where_length: "length (update_where c f rows) = length rows"
  by (simp add: update_where_def)

lemma update_where_nth:
  "i < length rows \<Longrightarrow> update_where c f rows ! i = (if c (rows ! i) then f (rows ! i) else rows ! i)"
  by (simp add: update_where_def)

lemma update_where_none: "\<not> list_ex c rows \<Longrightarrow> update_where c f rows = rows"
  by (induction rows) (auto simp: update_where_def)

subsection \<open>C10: enabling a slot enables the room\<close>

text \<open>
  C10, as the code has it. A call of the per-slot enable operation whose slot update
  fails is answered with the error and changes nothing. Every call whose slot update
  executes is answered with the success. The update of the room's record is issued with
  no callback and its outcome is not looked at: when it executes, the disabled flag of
  every room record with the given id is set to enabled (\<^verbatim>\<open>is_disabled = 0\<close>) and the
  other room records are left as they were; when it fails, the room records are as
  before, and the answer is the success all the same. In either case this does not
  depend on the status of the named slot: when no row of the slot for today is
  disabled, no slot row is changed by the call.
\<close>

theorem enable_time_slot_enables_room:
  "let (rep, s') = enable_time_slot flt clk rid label s in
     (ef_slot flt \<longrightarrow> rep = Failed 500 ''Failed to enable time slot'' \<and> s' = s) \<and>
     (\<not> ef_slot flt \<longrightarrow>
        rep = Json () \<and>
        length (rooms s') = length (rooms s) \<and>
        (\<not> ef_room flt \<longrightarrow>
           (\<forall>i < length (rooms s).
              (room_id (rooms s ! i) = rid \<longrightarrow> rooms s' ! i = (rooms s ! i)\<lparr>is_disabled := False\<rparr>) \<and>
              (room_id (rooms s ! i) \<noteq> rid \<longrightarrow> rooms s' ! i = rooms s ! i))) \<and>
        (ef_room flt \<longrightarrow> rooms s' = rooms s) \<and>
        (\<not> list_ex (\<lambda>r. slot_at rid (today clk) label r \<and> ra_status r = Disabled) (room_availability s)
           \<longrightarrow> room_availability s' = room_availability s))"
  by (simp add: enable_time_slot_def Let_def update_where_length update_where_nth update_where_none)

theorem enable_time_slot_enables_room_witness:
  "fst (enable_time_slot \<lparr>ef_slot = False, ef_room = False\<rparr> clkA ''R1'' ''08:00-10:00'' dbE) = Json () \<and>
   rooms (snd (enable_time_slot \<lparr>ef_slot = False, ef_room = False\<rparr> clkA ''R1'' ''08:00-10:00'' dbE)) ! 0
     = \<lparr>room_id = ''R1'', is_disabled = False\<rparr> \<and>
   room_availability (snd (enable_time_slot \<lparr>ef_slot = False, ef_room = False\<rparr> clkA ''R1'' ''08:00-10:00'' dbE))
     = room_availability dbE \<and>
   enable_time_slot \<lparr>ef_slot = True, ef_room = False\<rparr> clkA ''R1'' ''08:00-10:00'' dbE
     = (Failed 500 ''Failed to enable time slot'', dbE)"
proof -
  let ?flt = "\<lparr>ef_slot = False, ef_room = False\<rparr>"
  let ?bad = "\<lparr>ef_slot = True, ef_room = False\<rparr>"
  obtain rep s' where e: "enable_time_slot ?flt clkA ''R1'' ''08:00-10:00'' dbE = (rep, s')"
    by (cases "enable_time_slot ?flt clkA ''R1'' ''08:00-10:00'' dbE")
  obtain rep2 s2 where e2: "enable_time_slot ?bad clkA ''R1'' ''08:00-10:00'' dbE = (rep2, s2)"
    by (cases "enable_time_slot ?bad clkA ''R1'' ''08:00-10:00'' dbE")
  have h1: "\<not> ef_slot ?flt" and h2: "\<not> ef_room ?flt" and h5: "ef_slot ?bad"
    by simp_all
  have h3: "\<not> list_ex (\<lambda>r. slot_at ''R1'' (today clkA) ''08:00-10:00'' r \<and> ra_status r = Disabled)
               (room_availability dbE)"
    by (simp add: dbE_def clkA_def slot_at_def)
  have h4: "0 < length (rooms dbE)" "rooms dbE ! 0 = \<lparr>room_id = ''R1'', is_disabled = True\<rparr>"
    by (simp_all add: dbE_def)
  from enable_time_slot_enables_room [of ?flt clkA "''R1''" "''08:00-10:00''" dbE] e h1 h2 h3 h4
  have a: "rep = Json () \<and> rooms s' ! 0 = \<lparr>room_id = ''R1'', is_disabled = False\<rparr> \<and>
        room_availability s' = room_availability dbE"
    by auto
  from enable_time_slot_enables_room [of ?bad clkA "''R1''" "''08:00-10:00''" dbE] e2 h5
  have b: "rep2 = Failed 500 ''Failed to enable time slot'' \<and> s2 = dbE"
    by simp
  from a b e e2 show ?thesis by simp
qed

text \<open>
  The claim as stated fails when the update of the room's record fails: the call, for a
  slot that is not disabled, is answered with the success and the room's record is
  still disabled.
\<close>

theorem enable_time_slot_counterexample:
  "enable_time_slot \<lparr>ef_slot = False, ef_room = True\<rparr> clkA ''R1'' ''08:00-10:00'' dbE = (Json (), dbE) \<and>
   rooms dbE ! 0 = \<lparr>room_id = ''R1'', is_disabled = True\<rparr>"
  by (simp add: enable_time_slot_def update_where_def dbE_def clkA_def slot_at_def)

subsection \<open>C5: disabling a room\<close>

text \<open>
  The check of the room-level disable counts the room's slots of today whose status is
  not free. When it executes, the operation goes one of two ways: every slot of the room
  for today is free and the two updates are issued, or some slot is not free and the
  request is refused with the store untouched.
\<close>

lemma disable_room_cases:
  assumes "\<not> rf_check flt"
  shows "let mine = (\<lambda>r. ra_room_id r = rid \<and> availability_date r = today clk);
             (rep, s') = disable_room flt clk rid s in
           if list_all (\<lambda>r. mine r \<longrightarrow> ra_status r = Free) (room_availability s)
           then \<not> rf_slots flt \<and> \<not> rf_room flt \<longrightarrow>
                rep = Json (length (filter mine (room_availability s))) \<and>
                length (room_availability s') = length (room_availability s) \<and>
                (\<forall>i < length (room_availability s).
                   (mine (room_availability s ! i) \<longrightarrow>
                      room_availability s' ! i = (room_availability s ! i)\<lparr>ra_status := Disabled\<rparr>) \<and>
                   (\<not> mine (room_availability s ! i) \<longrightarrow>
                      room_availability s' ! i = room_availability s ! i)) \<and>
                length (rooms s') = length (rooms s) \<and>
                (\<forall>i < length (rooms s).
                   (room_id (rooms s ! i) = rid \<longrightarrow> rooms s' ! i = (rooms s ! i)\<lparr>is_disabled := True\<rparr>) \<and>
                   (room_id (rooms s ! i) \<noteq> rid \<longrightarrow> rooms s' ! i = rooms s ! i))
           else rep = Failed 400 ''Cannot disable room with booked or pending slots'' \<and> s' = s"
proof -
  let ?mine = "\<lambda>r. ra_room_id r = rid \<and> availability_date r = today clk"
  let ?nonfree = "\<lambda>r. ra_room_id r = rid \<and> availability_date r = today clk \<and> ra_status r \<noteq> Free"
  let ?free = "\<lambda>r. ra_room_id r = rid \<and> availability_date r = today clk \<and> ra_status r = Free"
  have cnt: "(0 < length (filter ?nonfree (room_availability s))) =
             (\<not> list_all (\<lambda>r. ?mine r \<longrightarrow> ra_status r = Free) (room_availability s))"
    by (induction "room_availability s") (auto simp: list_all_iff filter_empty_conv)
  show ?thesis
  proof (cases "list_all (\<lambda>r. ?mine r \<longrightarrow> ra_status r = Free) (room_availability s)")
    case False
    with cnt assms show ?thesis
      by (simp add: disable_room_def Let_def)
  next
    case True
    then have same: "filter ?free (room_availability s) = filter ?mine (room_availability s)"
      by (auto simp: list_all_iff intro: filter_cong)
    have nth_free: "i < length (room_availability s) \<Longrightarrow>
                    ?free (room_availability s ! i) = ?mine (room_availability s ! i)" for i
      using True by (auto simp: list_all_iff)
    have upd: "i < length (room_availability s) \<Longrightarrow>
               update_where ?free (\<lambda>r. r\<lparr>ra_status := Disabled\<rparr>) (room_availability s) ! i =
               (if ?mine (room_availability s ! i)
                then (room_availability s ! i)\<lparr>ra_status := Disabled\<rparr>
                else room_availability s ! i)" for i
      using nth_free [of i] by (simp add: update_where_nth)
    from True cnt assms show ?thesis
      by (simp add: disable_room_def Let_def same update_where_length upd
               update_where_nth [where rows = "rooms s"])
  qed
qed

text \<open>
  C5 does not hold of the code. Room \<open>R1\<close> of \<^const>\<open>dbE\<close> has one free and one disabled
  slot today and none that is pending or reserved: all its slots are non-occupied, and
  the staff listing computes \<^verbatim>\<open>can_disable\<close> as true for it. The room-level disable is
  refused all the same, with "Cannot disable room with booked or pending slots", and the
  store is left as it was: the check counts every slot that is not free, the disabled
  one among them.
\<close>

theorem disable_room_refuses_disabled_slot:
  "list_all (\<lambda>r. ra_status r = Free \<or> ra_status r = Disabled)
     (filter (\<lambda>r. ra_room_id r = ''R1'' \<and> availability_date r = today clkA) (room_availability dbE)) \<and>
   can_disable clkA ''R1'' dbE \<and>
   disable_room \<lparr>rf_check = False, rf_slots = False, rf_room = False\<rparr> clkA ''R1'' dbE
     = (Failed 400 ''Cannot disable room with booked or pending slots'', dbE)"
  by (simp add: disable_room_def can_disable_def count_slots_def dbE_def clkA_def)

text \<open>
  A room all of whose slots for today are free is disabled, and a room with a reserved
  slot is refused, as the claim says.
\<close>

lemma disable_room_examples:
  "fst (disable_room \<lparr>rf_check = False, rf_slots = False, rf_room = False\<rparr> clkA ''R1'' dbF) = Json 2 \<and>
   disable_room \<lparr>rf_check = False, rf_slots = False, rf_room = False\<rparr> clkA ''R2'' dbF
     = (Failed 400 ''Cannot disable room with booked or pending slots'', dbF)"
  by (simp add: disable_room_def dbF_def clkA_def)

subsection \<open>Facts about the example clock\<close>

lemma valid_0810: "isTimeSlotValid clkA ''08:00-10:00''"
  by (simp add: isTimeSlotValid_def clkA_def parseInt_def is_js_space_def dec_digit_def)

lemma digits_clkA: "digits_of (epoch_ms clkA) = ''1728025200000''"
  by (simp add: clkA_def digits_of_small digits_of_large digit_char_def)

subsection \<open>C8: the reason of a rejected booking\<close>

text \<open>
  C8, as the code has it. A book call that gets as far as the look at the slot and finds
  no free, unbound row for it is rejected with status 400, the store left as it was, and
  with a reason that depends on what the status statement returns. When that statement
  fails or returns no row, the reason is the general "Time slot not available".
  Otherwise the reason is read from the first row returned: "already pending" when the
  status is pending, "already reserved" when it is reserved, "already booked by another
  student" when the status is neither and the row is bound to a student, and the general
  "Time slot not available" when the row is none of these, such as a disabled and
  unbound one.
\<close>

theorem book_rejection_reason:
  assumes "reaches_slot_check flt clk req s"
    and "filter (\<lambda>r. slot_at (roomId req) (today clk) (timeSlot req) r \<and> free_unbound r)
           (room_availability s) = []"
  shows "\<exists>msg. post_bookings flt clk req s = (Failed 400 msg, s) \<and>
           (bf_status flt \<or>
            filter (slot_at (roomId req) (today clk) (timeSlot req)) (room_availability s) = []
              \<longrightarrow> msg = ''Time slot not available'') \<and>
           (\<forall>r rest.
              \<not> bf_status flt \<and>
              filter (slot_at (roomId req) (today clk) (timeSlot req)) (room_availability s) = r # rest
              \<longrightarrow>
                (ra_status r = Pending \<longrightarrow> msg = ''Time slot is already pending approval'') \<and>
                (ra_status r = Reserved \<longrightarrow> msg = ''Time slot is already reserved'') \<and>
                (ra_status r \<noteq> Pending \<and> ra_status r \<noteq> Reserved \<and>
                 (\<exists>other. ra_student_id r = Some other \<and> other \<noteq> [])
                   \<longrightarrow> msg = ''Time slot is already booked by another student'') \<and>
                (ra_status r \<noteq> Pending \<and> ra_status r \<noteq> Reserved \<and>
                 (ra_student_id r = None \<or> ra_student_id r = Some [])
                   \<longrightarrow> msg = ''Time slot not available''))"
proof (cases "bf_status flt \<or>
              filter (slot_at (roomId req) (today clk) (timeSlot req)) (room_availability s) = []")
  case True
  with assms have "post_bookings flt clk req s = (Failed 400 ''Time slot not available'', s)"
    by (auto simp: post_bookings_def reaches_slot_check_def)
  with True show ?thesis
    by auto
next
  case False
  then obtain r rest where
    rows: "filter (slot_at (roomId req) (today clk) (timeSlot req)) (room_availability s) = r # rest"
    by (cases "filter (slot_at (roomId req) (today clk) (timeSlot req)) (room_availability s)") auto
  with False assms have "post_bookings flt clk req s = (Failed 400 (errorMessage r), s)"
    by (simp add: post_bookings_def reaches_slot_check_def)
  with False rows show ?thesis
    by (auto simp: errorMessage_def)
qed

theorem book_rejection_reason_witness:
  "post_bookings \<lparr>bf_check = False, bf_slot = False, bf_status = False, bf_insert = False,
                  bf_update = False, bf_rollback = False\<rparr>
     clkA \<lparr>studentId = ''S2'', roomId = ''R1'', timeSlot = ''08:00-10:00''\<rparr> dbP
   = (Failed 400 ''Time slot is already pending approval'', dbP)"
proof -
  let ?flt = "\<lparr>bf_check = False, bf_slot = False, bf_status = False, bf_insert = False,
               bf_update = False, bf_rollback = False\<rparr>"
  let ?req = "\<lparr>studentId = ''S2'', roomId = ''R1'', timeSlot = ''08:00-10:00''\<rparr>"
  have g: "reaches_slot_check ?flt clkA ?req dbP"
    by (simp add: reaches_slot_check_def valid_0810) (simp add: dbP_def)
  have n: "filter (\<lambda>r. slot_at (roomId ?req) (today clkA) (timeSlot ?req) r \<and> free_unbound r)
             (room_availability dbP) = []"
    by (simp add: dbP_def clkA_def slot_at_def free_unbound_def)
  have f: "\<not> bf_status ?flt"
    by simp
  have r: "filter (slot_at (roomId ?req) (today clkA) (timeSlot ?req)) (room_availability dbP)
             = (room_availability dbP ! 0) # []"
    by (simp add: dbP_def clkA_def slot_at_def)
  have p: "ra_status (room_availability dbP ! 0) = Pending"
    by (simp add: dbP_def)
  from book_rejection_reason [OF g n] f r p show ?thesis
    by (elim exE conjE) simp
qed

text \<open>
  The claim as stated fails for a slot that is not free and is none of the three cases,
  and when the status statement fails. Slot \<open>10:00-12:00\<close> of room \<open>R1\<close> in \<^const>\<open>dbE\<close> is
  disabled and unbound: the booking is refused with the general reason. Slot
  \<open>08:00-10:00\<close> of room \<open>R1\<close> in \<^const>\<open>dbP\<close> is pending: with the status statement
  failing, the booking is refused with the general reason as well.
\<close>

theorem book_rejection_reason_counterexample:
  "ra_status (room_availability dbE ! 1) = Disabled \<and>
   post_bookings \<lparr>bf_check = False, bf_slot = False, bf_status = False, bf_insert = False,
                  bf_update = False, bf_rollback = False\<rparr>
     clkA \<lparr>studentId = ''S2'', roomId = ''R1'', timeSlot = ''10:00-12:00''\<rparr> dbE
   = (Failed 400 ''Time slot not available'', dbE) \<and>
   ra_status (room_availability dbP ! 0) = Pending \<and>
   post_bookings \<lparr>bf_check = False, bf_slot = False, bf_status = True, bf_insert = False,
                  bf_update = False, bf_rollback = False\<rparr>
     clkA \<lparr>studentId = ''S2'', roomId = ''R1'', timeSlot = ''08:00-10:00''\<rparr> dbP
   = (Failed 400 ''Time slot not available'', dbP)"
proof -
  have v: "isTimeSlotValid clkA ''10:00-12:00''"
    by (simp add: isTimeSlotValid_def clkA_def parseInt_def is_js_space_def dec_digit_def)
  have t: "today clkA = 20000"
    by (simp add: clkA_def)
  have a: "post_bookings \<lparr>bf_check = False, bf_slot = False, bf_status = False, bf_insert = False,
                  bf_update = False, bf_rollback = False\<rparr>
             clkA \<lparr>studentId = ''S2'', roomId = ''R1'', timeSlot = ''10:00-12:00''\<rparr> dbE
           = (Failed 400 ''Time slot not available'', dbE)"
    by (simp add: post_bookings_def v t)
       (simp add: dbE_def slot_at_def free_unbound_def errorMessage_def)
  have b: "post_bookings \<lparr>bf_check = False, bf_slot = False, bf_status = True, bf_insert = False,
                  bf_update = False, bf_rollback = False\<rparr>
             clkA \<lparr>studentId = ''S2'', roomId = ''R1'', timeSlot = ''08:00-10:00''\<rparr> dbP
           = (Failed 400 ''Time slot not available'', dbP)"
    by (simp add: post_bookings_def valid_0810 t)
       (simp add: dbP_def slot_at_def free_unbound_def)
  have c: "ra_status (room_availability dbE ! 1) = Disabled" "ra_status (room_availability dbP ! 0) = Pending"
    by (simp_all add: dbE_def dbP_def)
  from a b c show ?thesis
    by simp
qed

lemma delete_where_append_new:
  "c x \<Longrightarrow> delete_where c (rows @ [x]) = filter (\<lambda>r. \<not> c r) rows"
  by (simp add: delete_where_def)

subsection \<open>C3: compensation after a failed slot update\<close>

text \<open>
  C3, as the code has it. In every book call in which the insert of the Booking row
  executes and the update of the slot then fails, the caller receives the error of the
  slot update ("Booking update failed", status 500) whatever becomes of the
  compensation, and the slot rows are as before. The compensation is the delete of the
  rows with the new booking id: when that statement executes, no Booking row with the id
  of the attempt is left.
\<close>

theorem book_compensation:
  assumes "reaches_slot_check flt clk req s"
    and "filter (\<lambda>r. slot_at (roomId req) (today clk) (timeSlot req) r \<and> free_unbound r)
           (room_availability s) \<noteq> []"
    and "\<not> bf_insert flt"
    and "bf_update flt"
  shows "let bookingId = ''book_'' @ digits_of (epoch_ms clk);
             (rep, s') = post_bookings flt clk req s in
           rep = Failed 500 ''Booking update failed'' \<and>
           room_availability s' = room_availability s \<and>
           rooms s' = rooms s \<and>
           (\<not> bf_rollback flt \<longrightarrow>
              bookings s' = filter (\<lambda>b. b_id b \<noteq> bookingId) (bookings s) \<and>
              filter (\<lambda>b. b_id b = bookingId) (bookings s') = [])"
  using assms
  by (simp add: post_bookings_def reaches_slot_check_def Let_def delete_where_append_new
        new_booking_def)

theorem book_compensation_witness:
  "post_bookings \<lparr>bf_check = False, bf_slot = False, bf_status = False, bf_insert = False,
                  bf_update = True, bf_rollback = False\<rparr>
     clkA \<lparr>studentId = ''S1'', roomId = ''R1'', timeSlot = ''08:00-10:00''\<rparr> dbF
   = (Failed 500 ''Booking update failed'', dbF)"
proof -
  let ?flt = "\<lparr>bf_check = False, bf_slot = False, bf_status = False, bf_insert = False,
               bf_update = True, bf_rollback = False\<rparr>"
  let ?req = "\<lparr>studentId = ''S1'', roomId = ''R1'', timeSlot = ''08:00-10:00''\<rparr>"
  obtain rep s' where e: "post_bookings ?flt clkA ?req dbF = (rep, s')"
    by (cases "post_bookings ?flt clkA ?req dbF")
  have g: "reaches_slot_check ?flt clkA ?req dbF"
    by (simp add: reaches_slot_check_def valid_0810) (simp add: dbF_def)
  have a: "filter (\<lambda>r. slot_at (roomId ?req) (today clkA) (timeSlot ?req) r \<and> free_unbound r)
             (room_availability dbF) \<noteq> []"
    by (simp add: dbF_def clkA_def slot_at_def free_unbound_def)
  have i: "\<not> bf_insert ?flt" and u: "bf_update ?flt" and k: "\<not> bf_rollback ?flt"
    by simp_all
  have none: "filter (\<lambda>b. b_id b \<noteq> ''book_'' @ digits_of (epoch_ms clkA)) (bookings dbF) = bookings dbF"
    by (simp add: dbF_def)
  from book_compensation [OF g a i u] e k none
  have "rep = Failed 500 ''Booking update failed'' \<and> room_availability s' = room_availability dbF \<and>
        rooms s' = rooms dbF \<and> bookings s' = bookings dbF"
    by (simp add: Let_def)
  then have "rep = Failed 500 ''Booking update failed'' \<and> s' = dbF"
    by simp
  with e show ?thesis
    by simp
qed

text \<open>
  The claim as stated fails when the compensating delete itself fails (the source issues
  it and does not look at its outcome): the Booking row of the attempt stays.
\<close>

theorem book_compensation_counterexample:
  "post_bookings \<lparr>bf_check = False, bf_slot = False, bf_status = False, bf_insert = False,
                  bf_update = True, bf_rollback = True\<rparr>
     clkA \<lparr>studentId = ''S1'', roomId = ''R1'', timeSlot = ''08:00-10:00''\<rparr> dbF
   = (Failed 500 ''Booking update failed'',
      dbF\<lparr>bookings :=
            [\<lparr>b_id = ''book_1728025200000'', b_student_id = ''S1'', b_room_id = ''R1'',
              booking_date = 20000, b_time_slot = ''08:00-10:00'', b_status = ''Pending'',
              approved_by = None, approved_at = None\<rparr>]\<rparr>)"
proof -
  have t: "today clkA = 20000"
    by (simp add: clkA_def)
  show ?thesis
    by (simp add: post_bookings_def valid_0810 digits_clkA Let_def new_booking_def t)
       (simp add: dbF_def slot_at_def free_unbound_def)
qed


lemma filter_Nil_list_ex: "(filter P xs = []) = (\<not> list_ex P xs)"
  by (simp add: filter_empty_conv list_ex_iff)

subsection \<open>C4: deciding a booking\<close>

text \<open>
  C4, as the code has it. When the lookup executes, the decision is rejected with
  "Booking not found" (status 404) if and only if no booking has the given id.
  Otherwise, when the update of the booking executes, the call reports success; every
  booking row with the id gets the given status, the approver and the store's time as
  decision timestamp, and the other booking rows are as before. The slot status that is
  derived is reserved when the decision status is \<^verbatim>\<open>approved\<close> in any letter case, and free
  for anything else; it is written to the slot rows of the booking's room, date and time
  slot that are bound to the booking's student, and the other slot rows are as before.
  If that write fails, no slot row changes, the booking rows stay updated and the call
  still reports success.
\<close>

theorem decide_booking:
  assumes "\<not> df_get flt"
  shows "let (rep, s') = put_booking_status flt clk bookingId status approvedBy s in
           (rep = Failed 404 ''Booking not found'' \<longleftrightarrow>
              \<not> list_ex (\<lambda>b. b_id b = bookingId) (bookings s)) \<and>
           (\<forall>bk rest.
              filter (\<lambda>b. b_id b = bookingId) (bookings s) = bk # rest \<and> \<not> df_update flt \<longrightarrow>
                rep = Json ''Booking status updated'' \<and>
                rooms s' = rooms s \<and>
                length (bookings s') = length (bookings s) \<and>
                (\<forall>i < length (bookings s).
                   (b_id (bookings s ! i) = bookingId \<longrightarrow>
                      bookings s' ! i =
                        (bookings s ! i)\<lparr>b_status := status, approved_by := approvedBy,
                                           approved_at := Some (db_now clk)\<rparr>) \<and>
                   (b_id (bookings s ! i) \<noteq> bookingId \<longrightarrow> bookings s' ! i = bookings s ! i)) \<and>
                length (room_availability s') = length (room_availability s) \<and>
                (df_avail flt \<longrightarrow> room_availability s' = room_availability s) \<and>
                (\<not> df_avail flt \<longrightarrow>
                   (\<forall>i < length (room_availability s).
                      let r = room_availability s ! i in
                        (slot_at (b_room_id bk) (booking_date bk) (b_time_slot bk) r \<and>
                         ra_student_id r = Some (b_student_id bk) \<longrightarrow>
                           room_availability s' ! i =
                             r\<lparr>ra_status := (if toLowerCase status = ''approved'' then Reserved else Free)\<rparr>) \<and>
                        (\<not> (slot_at (b_room_id bk) (booking_date bk) (b_time_slot bk) r \<and>
                            ra_student_id r = Some (b_student_id bk)) \<longrightarrow>
                           room_availability s' ! i = r))))"
proof (cases "filter (\<lambda>b. b_id b = bookingId) (bookings s)")
  case Nil
  then have "\<not> list_ex (\<lambda>b. b_id b = bookingId) (bookings s)"
    by (simp add: filter_Nil_list_ex)
  with Nil assms show ?thesis
    by (simp add: put_booking_status_def)
next
  case (Cons bk rest)
  then have ex: "list_ex (\<lambda>b. b_id b = bookingId) (bookings s)"
    using filter_Nil_list_ex [of "\<lambda>b. b_id b = bookingId" "bookings s"] by simp
  show ?thesis
  proof (cases "df_update flt")
    case True
    with Cons ex assms show ?thesis
      by (simp add: put_booking_status_def)
  next
    case False
    with Cons ex assms show ?thesis
      by (simp add: put_booking_status_def Let_def update_where_length update_where_nth
            availabilityStatus_def)
  qed
qed

theorem decide_booking_witness:
  "fst (put_booking_status \<lparr>df_get = False, df_update = False, df_avail = False\<rparr> clkA
          ''book_1728025100000'' ''Approved'' (Some ''L1'') dbP) = Json ''Booking status updated'' \<and>
   bookings (snd (put_booking_status \<lparr>df_get = False, df_update = False, df_avail = False\<rparr> clkA
          ''book_1728025100000'' ''Approved'' (Some ''L1'') dbP)) ! 0
     = (bookings dbP ! 0)\<lparr>b_status := ''Approved'', approved_by := Some ''L1'',
                             approved_at := Some (db_now clkA)\<rparr> \<and>
   room_availability (snd (put_booking_status \<lparr>df_get = False, df_update = False, df_avail = False\<rparr> clkA
          ''book_1728025100000'' ''Approved'' (Some ''L1'') dbP)) ! 0
     = (room_availability dbP ! 0)\<lparr>ra_status := Reserved\<rparr> \<and>
   fst (put_booking_status \<lparr>df_get = False, df_update = False, df_avail = True\<rparr> clkA
          ''book_1728025100000'' ''Rejected'' (Some ''L1'') dbP) = Json ''Booking status updated'' \<and>
   room_availability (snd (put_booking_status \<lparr>df_get = False, df_update = False, df_avail = True\<rparr> clkA
          ''book_1728025100000'' ''Rejected'' (Some ''L1'') dbP)) = room_availability dbP \<and>
   fst (put_booking_status \<lparr>df_get = False, df_update = False, df_avail = False\<rparr> clkA
          ''book_0'' ''Approved'' (Some ''L1'') dbP) = Failed 404 ''Booking not found''"
proof -
  let ?ok = "\<lparr>df_get = False, df_update = False, df_avail = False\<rparr>"
  let ?lost = "\<lparr>df_get = False, df_update = False, df_avail = True\<rparr>"
  let ?id = "''book_1728025100000''"
  obtain rep1 s1 where e1: "put_booking_status ?ok clkA ?id ''Approved'' (Some ''L1'') dbP = (rep1, s1)"
    by (cases "put_booking_status ?ok clkA ?id ''Approved'' (Some ''L1'') dbP")
  obtain rep2 s2 where e2: "put_booking_status ?lost clkA ?id ''Rejected'' (Some ''L1'') dbP = (rep2, s2)"
    by (cases "put_booking_status ?lost clkA ?id ''Rejected'' (Some ''L1'') dbP")
  obtain rep3 s3 where e3: "put_booking_status ?ok clkA ''book_0'' ''Approved'' (Some ''L1'') dbP = (rep3, s3)"
    by (cases "put_booking_status ?ok clkA ''book_0'' ''Approved'' (Some ''L1'') dbP")
  have g1: "\<not> df_get ?ok" and g2: "\<not> df_get ?lost"
    by simp_all
  have found: "filter (\<lambda>b. b_id b = ?id) (bookings dbP) = (bookings dbP ! 0) # []"
    and absent: "\<not> list_ex (\<lambda>b. b_id b = ''book_0'') (bookings dbP)"
    and n: "length (bookings dbP) = 1" "length (room_availability dbP) = 1"
    and b0: "b_id (bookings dbP ! 0) = ?id"
    and r0: "slot_at (b_room_id (bookings dbP ! 0)) (booking_date (bookings dbP ! 0))
               (b_time_slot (bookings dbP ! 0)) (room_availability dbP ! 0)"
            "ra_student_id (room_availability dbP ! 0) = Some (b_student_id (bookings dbP ! 0))"
    by (simp_all add: dbP_def slot_at_def)
  have low: "toLowerCase ''Approved'' = ''approved''"
    by (simp add: toLowerCase_def lower_char_def)
  from decide_booking [OF g1, of clkA ?id "''Approved''" "Some ''L1''" dbP] e1
  have "\<forall>bk rest. filter (\<lambda>b. b_id b = ?id) (bookings dbP) = bk # rest \<and> \<not> df_update ?ok \<longrightarrow>
          rep1 = Json ''Booking status updated'' \<and>
          (\<forall>i < length (bookings dbP).
             b_id (bookings dbP ! i) = ?id \<longrightarrow>
               bookings s1 ! i = (bookings dbP ! i)\<lparr>b_status := ''Approved'', approved_by := Some ''L1'',
                                                   approved_at := Some (db_now clkA)\<rparr>) \<and>
          (\<not> df_avail ?ok \<longrightarrow>
             (\<forall>i < length (room_availability dbP).
                slot_at (b_room_id bk) (booking_date bk) (b_time_slot bk) (room_availability dbP ! i) \<and>
                ra_student_id (room_availability dbP ! i) = Some (b_student_id bk) \<longrightarrow>
                  room_availability s1 ! i = (room_availability dbP ! i)\<lparr>ra_status := Reserved\<rparr>))"
    by (simp add: Let_def low)
  with found n b0 r0
  have a: "rep1 = Json ''Booking status updated'' \<and>
           bookings s1 ! 0 = (bookings dbP ! 0)\<lparr>b_status := ''Approved'', approved_by := Some ''L1'',
                                                  approved_at := Some (db_now clkA)\<rparr> \<and>
           room_availability s1 ! 0 = (room_availability dbP ! 0)\<lparr>ra_status := Reserved\<rparr>"
    by simp
  from decide_booking [OF g2, of clkA ?id "''Rejected''" "Some ''L1''" dbP] e2
  have "\<forall>bk rest. filter (\<lambda>b. b_id b = ?id) (bookings dbP) = bk # rest \<and> \<not> df_update ?lost \<longrightarrow>
          rep2 = Json ''Booking status updated'' \<and>
          (df_avail ?lost \<longrightarrow> room_availability s2 = room_availability dbP)"
    by (simp add: Let_def)
  with found have b: "rep2 = Json ''Booking status updated'' \<and> room_availability s2 = room_availability dbP"
    by simp
  from decide_booking [OF g1, of clkA "''book_0''" "''Approved''" "Some ''L1''" dbP] e3 absent
  have c: "rep3 = Failed 404 ''Booking not found''"
    by (simp add: Let_def)
  from a b c e1 e2 e3 show ?thesis
    by simp
qed

text \<open>
  The claim as stated ("free for anything else") fails at a decision status other than
  \<^verbatim>\<open>Approved\<close> that lower-cases to \<^verbatim>\<open>approved\<close>: the slot becomes reserved.
\<close>

theorem decide_booking_counterexample:
  "''APPROVED'' \<noteq> ''Approved'' \<and>
   put_booking_status \<lparr>df_get = False, df_update = False, df_avail = False\<rparr> clkA
       ''book_1728025100000'' ''APPROVED'' (Some ''L1'') dbP
     = (Json ''Booking status updated'',
        dbP\<lparr>room_availability :=
              [\<lparr>ra_time_slot = ''08:00-10:00'', ra_status = Reserved, ra_room_id = ''R1'',
                availability_date = 20000, ra_student_id = Some ''S1'', ra_booking_id = None\<rparr>],
            bookings :=
              [\<lparr>b_id = ''book_1728025100000'', b_student_id = ''S1'', b_room_id = ''R1'',
                booking_date = 20000, b_time_slot = ''08:00-10:00'', b_status = ''APPROVED'',
                approved_by = Some ''L1'', approved_at = Some 1728025200\<rparr>]\<rparr>)"
  by (simp add: put_booking_status_def dbP_def clkA_def update_where_def slot_at_def
        availabilityStatus_def toLowerCase_def lower_char_def)


subsection \<open>C7: materializing the slots of a day\<close>

lemma valid_labels_clkA: "filter (isTimeSlotValid clkA) timeSlots = timeSlots"
  by (simp add: timeSlots_def isTimeSlotValid_def clkA_def parseInt_def is_js_space_def dec_digit_def)

lemma valid_labels_clkB:
  "filter (isTimeSlotValid clkB) timeSlots = [''10:00-12:00'', ''13:00-15:00'', ''15:00-17:00'']"
  by (simp add: timeSlots_def isTimeSlotValid_def clkB_def parseInt_def is_js_space_def dec_digit_def)

lemma list_ex_insert_ignore_keep: "list_ex P rows \<Longrightarrow> list_ex P (insert_ignore r rows)"
  by (simp add: insert_ignore_def)

lemma list_ex_insert_ignore_new:
  "list_ex (slot_at (ra_room_id r) (availability_date r) (ra_time_slot r)) (insert_ignore r rows)"
  by (simp add: insert_ignore_def slot_at_def)

lemma foldl_insert_ignore_keep:
  "list_ex P rows \<Longrightarrow>
   list_ex P (foldl (\<lambda>rows l. insert_ignore (new_slot l rid d) rows) rows ls)"
  by (induction ls arbitrary: rows) (simp_all add: list_ex_insert_ignore_keep)

lemma foldl_insert_ignore_covers:
  "l \<in> set ls \<Longrightarrow>
   list_ex (slot_at rid d l) (foldl (\<lambda>rows l. insert_ignore (new_slot l rid d) rows) rows ls)"
proof (induction ls arbitrary: rows)
  case Nil
  then show ?case by simp
next
  case (Cons a ls)
  show ?case
  proof (cases "l = a")
    case True
    have "list_ex (slot_at rid d a) (insert_ignore (new_slot a rid d) rows)"
      using list_ex_insert_ignore_new [of "new_slot a rid d" rows] by (simp add: new_slot_def)
    then show ?thesis
      using True by (simp add: foldl_insert_ignore_keep)
  next
    case False
    with Cons.prems have "l \<in> set ls" by simp
    then show ?thesis
      using Cons.IH by simp
  qed
qed

lemma foldl_insert_ignore_added:
  "\<exists>added. foldl (\<lambda>rows l. insert_ignore (new_slot l rid d) rows) rows ls = rows @ added \<and>
           list_all (\<lambda>r. ra_status r = Free \<and> ra_student_id r = None \<and> ra_room_id r = rid \<and>
                         availability_date r = d \<and> ra_time_slot r \<in> set ls) added"
proof (induction ls arbitrary: rows)
  case Nil
  then show ?case by simp
next
  case (Cons a ls)
  obtain added where a: "foldl (\<lambda>rows l. insert_ignore (new_slot l rid d) rows)
                            (insert_ignore (new_slot a rid d) rows) ls
                          = insert_ignore (new_slot a rid d) rows @ added"
    and b: "list_all (\<lambda>r. ra_status r = Free \<and> ra_student_id r = None \<and> ra_room_id r = rid \<and>
                         availability_date r = d \<and> ra_time_slot r \<in> set ls) added"
    using Cons.IH [of "insert_ignore (new_slot a rid d) rows"] by blast
  from b have b': "list_all (\<lambda>r. ra_status r = Free \<and> ra_student_id r = None \<and> ra_room_id r = rid \<and>
                         availability_date r = d \<and> ra_time_slot r \<in> set (a # ls)) added"
    by (simp add: list_all_iff)
  show ?case
  proof (cases "list_ex (slot_at rid d a) rows")
    case True
    then have "insert_ignore (new_slot a rid d) rows = rows"
      by (simp add: insert_ignore_def new_slot_def)
    with a b' show ?thesis by auto
  next
    case False
    then have "insert_ignore (new_slot a rid d) rows = rows @ [new_slot a rid d]"
      by (simp add: insert_ignore_def new_slot_def)
    with a b' show ?thesis
      by (intro exI [of _ "new_slot a rid d # added"]) (simp add: new_slot_def)
  qed
qed

lemma foldl_insert_ignore_exact:
  "distinct ls \<Longrightarrow>
   foldl (\<lambda>rows l. insert_ignore (new_slot l rid d) rows) rows ls =
   rows @ map (\<lambda>l. new_slot l rid d) (filter (\<lambda>l. \<not> list_ex (slot_at rid d l) rows) ls)"
proof (induction ls arbitrary: rows)
  case Nil
  then show ?case by simp
next
  case (Cons a ls)
  then have fresh: "a \<notin> set ls" and d: "distinct ls"
    by simp_all
  show ?case
  proof (cases "list_ex (slot_at rid d a) rows")
    case True
    then have "insert_ignore (new_slot a rid d) rows = rows"
      by (simp add: insert_ignore_def new_slot_def)
    with True Cons.IH [OF d, of rows] show ?thesis
      by simp
  next
    case False
    then have ins: "insert_ignore (new_slot a rid d) rows = rows @ [new_slot a rid d]"
      by (simp add: insert_ignore_def new_slot_def)
    have same: "filter (\<lambda>l. \<not> list_ex (slot_at rid d l) (rows @ [new_slot a rid d])) ls =
                filter (\<lambda>l. \<not> list_ex (slot_at rid d l) rows) ls"
      using fresh by (intro filter_cong) (auto simp: slot_at_def new_slot_def)
    from False ins same Cons.IH [OF d, of "rows @ [new_slot a rid d]"] show ?thesis
      by simp
  qed
qed

lemma distinct_valid_labels: "distinct (filter P timeSlots)"
  by (rule distinct_filter) (simp add: timeSlots_def)

lemma foldl_no_failure:
  "\<not> list_ex fails ls \<Longrightarrow>
   foldl (\<lambda>rows l. if fails l then rows else insert_ignore (new_slot l rid d) rows) rows ls =
   foldl (\<lambda>rows l. insert_ignore (new_slot l rid d) rows) rows ls"
  by (induction ls arbitrary: rows) simp_all

text \<open>
  C7, as the code has it (the handler of app.js, for the current date). When the first
  read fails, an error is raised and nothing is added. Otherwise, if the room has
  existing slots whose end time has not passed, exactly those are returned and nothing
  is added. Otherwise the handler issues one insert for each configured label whose end
  time has not passed; when there is no such label, the empty list is returned and
  nothing is added. When an insert fails, an error is raised. When every insert
  executes, the rows of the store are the old ones followed by one new row, free and
  unbound, for each of those labels that the room did not have yet, so that every one of
  those labels has a slot of the room afterwards; rooms and bookings are as before; and,
  the second read executing, the answer is the room's slots whose end time has not
  passed.
\<close>

theorem time_slots_materialize:
  "let existing = slots_of rid (today clk) s;
       valid = (\<lambda>r. isTimeSlotValid clk (ra_time_slot r));
       labels = filter (isTimeSlotValid clk) timeSlots;
       (rep, s') = get_time_slots flt clk rid s in
     (sf_select flt \<longrightarrow> rep = Failed 500 ''Server error'' \<and> s' = s) \<and>
     (\<not> sf_select flt \<and> filter valid existing \<noteq> [] \<longrightarrow>
        rep = Json (filter valid existing) \<and> s' = s) \<and>
     (\<not> sf_select flt \<and> filter valid existing = [] \<and> labels = [] \<longrightarrow>
        rep = Json [] \<and> s' = s) \<and>
     (\<not> sf_select flt \<and> filter valid existing = [] \<and> list_ex (sf_insert flt) labels \<longrightarrow>
        rep = Failed 500 ''Failed to initialize time slots'') \<and>
     (\<not> sf_select flt \<and> filter valid existing = [] \<and> \<not> list_ex (sf_insert flt) labels \<longrightarrow>
        (\<forall>l \<in> set labels. list_ex (slot_at rid (today clk) l) (room_availability s')) \<and>
        room_availability s' =
          room_availability s @
          map (\<lambda>l. new_slot l rid (today clk))
            (filter (\<lambda>l. \<not> list_ex (slot_at rid (today clk) l) (room_availability s)) labels) \<and>
        rooms s' = rooms s \<and> bookings s' = bookings s \<and>
        (\<not> sf_fetch flt \<longrightarrow> rep = Json (filter valid (slots_of rid (today clk) s'))))"
proof -
  let ?labels = "filter (isTimeSlotValid clk) timeSlots"
  let ?ins = "foldl (\<lambda>rows l. insert_ignore (new_slot l rid (today clk)) rows) (room_availability s) ?labels"
  have cov: "\<forall>l \<in> set ?labels. list_ex (slot_at rid (today clk) l) ?ins"
    using foldl_insert_ignore_covers by blast
  note add = foldl_insert_ignore_exact [OF distinct_valid_labels [of "isTimeSlotValid clk"],
      where rid = rid and d = "today clk" and rows = "room_availability s"]
  have empty: "?labels = [] \<Longrightarrow> s\<lparr>room_availability := room_availability s\<rparr> = s"
    by simp
  show ?thesis
  proof (cases "?labels = []")
    case True
    then show ?thesis
      unfolding Let_def get_time_slots_def by simp
  next
    case False
    then show ?thesis
      unfolding Let_def get_time_slots_def
      using cov add by (auto simp: foldl_no_failure)
  qed
qed

theorem time_slots_materialize_witness:
  "list_all (\<lambda>l. list_ex (slot_at ''R2'' 20000 l)
               (room_availability (snd (get_time_slots
                  \<lparr>sf_select = False, sf_insert = (\<lambda>label. False), sf_fetch = False\<rparr> clkA ''R2'' dbE))))
     [''08:00-10:00'', ''10:00-12:00'', ''13:00-15:00'', ''15:00-17:00''] \<and>
   get_time_slots \<lparr>sf_select = False, sf_insert = (\<lambda>label. False), sf_fetch = False\<rparr> clkA ''R1'' dbF
     = (Json [new_slot ''08:00-10:00'' ''R1'' 20000, new_slot ''10:00-12:00'' ''R1'' 20000], dbF)"
proof -
  let ?flt = "\<lparr>sf_select = False, sf_insert = (\<lambda>label. False), sf_fetch = False\<rparr>"
  obtain rep s' where e: "get_time_slots ?flt clkA ''R2'' dbE = (rep, s')"
    by (cases "get_time_slots ?flt clkA ''R2'' dbE")
  obtain rep1 s1 where e1: "get_time_slots ?flt clkA ''R1'' dbF = (rep1, s1)"
    by (cases "get_time_slots ?flt clkA ''R1'' dbF")
  have t: "today clkA = 20000"
    by (simp add: clkA_def)
  have none: "slots_of ''R2'' 20000 dbE = []"
    by (simp add: slots_of_def dbE_def)
  have two: "slots_of ''R1'' 20000 dbF =
               [new_slot ''08:00-10:00'' ''R1'' 20000, new_slot ''10:00-12:00'' ''R1'' 20000]"
    by (simp add: slots_of_def dbF_def new_slot_def less_eq_char_def less_char_def)
  have v: "isTimeSlotValid clkA ''08:00-10:00''" "isTimeSlotValid clkA ''10:00-12:00''"
    by (simp_all add: isTimeSlotValid_def clkA_def parseInt_def is_js_space_def dec_digit_def)
  have lab: "ra_time_slot (new_slot l ''R1'' 20000) = l" for l
    by (simp add: new_slot_def)
  have nofail: "\<not> list_ex (sf_insert ?flt) timeSlots"
    by (simp add: list_ex_iff)
  from time_slots_materialize [of "''R2''" clkA dbE ?flt] e nofail
  have "\<forall>l \<in> set timeSlots. list_ex (slot_at ''R2'' 20000 l) (room_availability s')"
    by (simp add: Let_def t none valid_labels_clkA)
       (simp add: timeSlots_def dbE_def slot_at_def new_slot_def)
  then have a: "list_all (\<lambda>l. list_ex (slot_at ''R2'' 20000 l) (room_availability s'))
                  [''08:00-10:00'', ''10:00-12:00'', ''13:00-15:00'', ''15:00-17:00'']"
    by (simp add: timeSlots_def)
  from time_slots_materialize [of "''R1''" clkA dbF ?flt] e1
  have b: "rep1 = Json [new_slot ''08:00-10:00'' ''R1'' 20000, new_slot ''10:00-12:00'' ''R1'' 20000] \<and>
           s1 = dbF"
    by (simp add: Let_def t two v lab)
  from a b e e1 show ?thesis
    by simp
qed

text \<open>
  The claim as stated fails on the handler of app.js in its three parts. With an empty
  room at 07:00 and the second insert failing, the error is raised and three labels have
  been added. With an empty room at 11:00, three of the four configured labels are
  inserted. With a room that has two slots at 11:00, only the one that has not ended is
  returned.
\<close>

theorem get_time_slots_counterexample:
  "get_time_slots \<lparr>sf_select = False, sf_insert = (\<lambda>label. label = ''10:00-12:00''), sf_fetch = False\<rparr>
     clkA ''R2'' dbE
   = (Failed 500 ''Failed to initialize time slots'',
      dbE\<lparr>room_availability := room_availability dbE @
             [new_slot ''08:00-10:00'' ''R2'' 20000, new_slot ''13:00-15:00'' ''R2'' 20000,
              new_slot ''15:00-17:00'' ''R2'' 20000]\<rparr>) \<and>
   get_time_slots \<lparr>sf_select = False, sf_insert = (\<lambda>label. False), sf_fetch = False\<rparr> clkB ''R2'' dbE
   = (Json [new_slot ''10:00-12:00'' ''R2'' 20000, new_slot ''13:00-15:00'' ''R2'' 20000,
            new_slot ''15:00-17:00'' ''R2'' 20000],
      dbE\<lparr>room_availability := room_availability dbE @
             [new_slot ''10:00-12:00'' ''R2'' 20000, new_slot ''13:00-15:00'' ''R2'' 20000,
              new_slot ''15:00-17:00'' ''R2'' 20000]\<rparr>) \<and>
   slots_of ''R1'' (today clkB) dbF
   = [new_slot ''08:00-10:00'' ''R1'' 20000, new_slot ''10:00-12:00'' ''R1'' 20000] \<and>
   get_time_slots \<lparr>sf_select = False, sf_insert = (\<lambda>label. False), sf_fetch = False\<rparr> clkB ''R1'' dbF
   = (Json [new_slot ''10:00-12:00'' ''R1'' 20000], dbF)"
proof -
  have ta: "today clkA = 20000" and tb: "today clkB = 20000"
    by (simp_all add: clkA_def clkB_def)
  have none: "slots_of ''R2'' 20000 dbE = []"
    by (simp add: slots_of_def dbE_def)
  have va: "isTimeSlotValid clkB ''10:00-12:00''" "isTimeSlotValid clkB ''13:00-15:00''" "isTimeSlotValid clkB ''15:00-17:00''"
    by (simp_all add: isTimeSlotValid_def clkB_def parseInt_def is_js_space_def dec_digit_def)
  have two: "slots_of ''R1'' 20000 dbF =
               [new_slot ''08:00-10:00'' ''R1'' 20000, new_slot ''10:00-12:00'' ''R1'' 20000]"
    by (simp add: slots_of_def dbF_def new_slot_def less_eq_char_def less_char_def)
  have gone: "\<not> isTimeSlotValid clkB ''08:00-10:00''"
    by (simp add: isTimeSlotValid_def clkB_def parseInt_def is_js_space_def dec_digit_def)
  have lab: "ra_time_slot (new_slot l ''R1'' 20000) = l" for l
    by (simp add: new_slot_def)
  have c1: "get_time_slots \<lparr>sf_select = False, sf_insert = (\<lambda>label. label = ''10:00-12:00''), sf_fetch = False\<rparr>
              clkA ''R2'' dbE
            = (Failed 500 ''Failed to initialize time slots'',
               dbE\<lparr>room_availability := room_availability dbE @
                  [new_slot ''08:00-10:00'' ''R2'' 20000, new_slot ''13:00-15:00'' ''R2'' 20000,
                   new_slot ''15:00-17:00'' ''R2'' 20000]\<rparr>)"
    apply (simp add: get_time_slots_def ta none valid_labels_clkA Let_def)
    apply (simp add: timeSlots_def insert_ignore_def new_slot_def slot_at_def dbE_def ta)
    done
  have c2: "get_time_slots \<lparr>sf_select = False, sf_insert = (\<lambda>label. False), sf_fetch = False\<rparr> clkB ''R2'' dbE
            = (Json [new_slot ''10:00-12:00'' ''R2'' 20000, new_slot ''13:00-15:00'' ''R2'' 20000,
                     new_slot ''15:00-17:00'' ''R2'' 20000],
               dbE\<lparr>room_availability := room_availability dbE @
                  [new_slot ''10:00-12:00'' ''R2'' 20000, new_slot ''13:00-15:00'' ''R2'' 20000,
                   new_slot ''15:00-17:00'' ''R2'' 20000]\<rparr>)"
    apply (simp add: get_time_slots_def tb none valid_labels_clkB Let_def)
    apply (simp add: insert_ignore_def new_slot_def slot_at_def dbE_def slots_of_def
             less_eq_char_def less_char_def va tb)
    done
  have c3: "get_time_slots \<lparr>sf_select = False, sf_insert = (\<lambda>label. False), sf_fetch = False\<rparr> clkB ''R1'' dbF
            = (Json [new_slot ''10:00-12:00'' ''R1'' 20000], dbF)"
    by (simp add: get_time_slots_def tb two lab gone va Let_def)
  from c1 c2 c3 two tb show ?thesis
    by simp
qed

lemma sort_key_Nil_iff: "(sort_key f xs = []) = (xs = [])"
  by (metis length_0_conv length_sort)

text \<open>
  The older handler of part_000 does what the claim says: it returns the existing slots
  of the room and date unfiltered if there is any, and otherwise adds the four
  configured labels, free and unbound, in one statement; when a statement before the
  second read fails, an error is raised and nothing has been added.
\<close>

lemma time_slots_legacy:
  "let existing = slots_of rid (today clk) s;
       (rep, s') = get_time_slots_legacy flt clk rid s in
     (lf_select flt \<longrightarrow> rep = Failed 500 ''Server error'' \<and> s' = s) \<and>
     (\<not> lf_select flt \<and> existing \<noteq> [] \<longrightarrow> rep = Json existing \<and> s' = s) \<and>
     (\<not> lf_select flt \<and> existing = [] \<and> lf_insert flt \<longrightarrow>
        rep = Failed 500 ''Failed to create time slots'' \<and> s' = s) \<and>
     (\<not> lf_select flt \<and> existing = [] \<and> \<not> lf_insert flt \<longrightarrow>
        room_availability s' =
          room_availability s @ map (\<lambda>l. new_slot l rid (today clk)) timeSlots \<and>
        rooms s' = rooms s \<and> bookings s' = bookings s \<and>
        (\<not> lf_fetch flt \<longrightarrow> rep = Json (slots_of rid (today clk) s')))"
proof -
  have ins: "foldl (\<lambda>rows l. insert_ignore (new_slot l rid (today clk)) rows) (room_availability s) timeSlots
             = room_availability s @ map (\<lambda>l. new_slot l rid (today clk)) timeSlots"
    if "slots_of rid (today clk) s = []"
  proof -
    from that have "filter (\<lambda>r. ra_room_id r = rid \<and> availability_date r = today clk) (room_availability s) = []"
      by (simp add: slots_of_def sort_key_Nil_iff)
    then have "\<not> list_ex (slot_at rid (today clk) l) (room_availability s)" for l
      by (auto simp: filter_empty_conv list_ex_iff slot_at_def)
    then show ?thesis
      by (simp add: timeSlots_def insert_ignore_def new_slot_def slot_at_def)
  qed
  show ?thesis
    unfolding Let_def get_time_slots_legacy_def
    by (auto simp: ins)
qed


subsection \<open>The statement-by-statement chain is the handler\<close>

text \<open>
  Run on its own from its first statement, a call reaches its answer within five
  statements, with the answer and the store of \<^const>\<open>post_bookings\<close>.
\<close>

lemma book_steps_sequential:
  "book_steps 5 flt clk req (At_check, s) =
     (Done (fst (post_bookings flt clk req s)), snd (post_bookings flt clk req s))"
  by (simp add: eval_nat_numeral book_step_def post_bookings_def Let_def split: list.split)

lemma valid_0810_clkA2: "isTimeSlotValid clkA2 ''08:00-10:00''"
  by (simp add: isTimeSlotValid_def clkA2_def parseInt_def is_js_space_def dec_digit_def)

lemma digits_clkA2: "digits_of (epoch_ms clkA2) = ''1728025200001''"
  by (simp add: clkA2_def digits_of_small digits_of_large digit_char_def)

lemma today_clkA: "today clkA = 20000"
  by (simp add: clkA_def)

lemma today_clkA2: "today clkA2 = 20000"
  by (simp add: clkA2_def)

subsection \<open>C1: two calls for one free slot\<close>

text \<open>
  C1 does not hold of the code. Two book calls, of students \<open>S1\<close> and \<open>S2\<close>, for the
  same free slot, with their statements alternating (both have looked at the slot before
  either writes): both calls answer with the success, two Pending bookings exist for the
  slot, and the slot's row, written by both, is bound to \<open>S2\<close>. The update of the slot
  has no condition on the status or the student. This alternation is the order in which
  the one connection of \<^verbatim>\<open>db.js\<close> executes the statements of two requests that arrive
  together: each callback queues the call's next statement behind the other call's
  pending one. Run one after the other, the second call is refused with
  "already pending".
\<close>

theorem concurrent_bookings_both_succeed:
  "run_schedule [call_S1, call_S2] [0, 1, 0, 1, 0, 1, 0, 1] ([At_check, At_check], db0) =
     ([Done (Json ''book_1728025200000''), Done (Json ''book_1728025200001'')],
      db0\<lparr>room_availability :=
            [\<lparr>ra_time_slot = ''08:00-10:00'', ra_status = Pending, ra_room_id = ''R1'',
              availability_date = 20000, ra_student_id = Some ''S2'', ra_booking_id = None\<rparr>,
             new_slot ''10:00-12:00'' ''R1'' 20000],
          bookings :=
            [\<lparr>b_id = ''book_1728025200000'', b_student_id = ''S1'', b_room_id = ''R1'',
              booking_date = 20000, b_time_slot = ''08:00-10:00'', b_status = ''Pending'',
              approved_by = None, approved_at = None\<rparr>,
             \<lparr>b_id = ''book_1728025200001'', b_student_id = ''S2'', b_room_id = ''R1'',
              booking_date = 20000, b_time_slot = ''08:00-10:00'', b_status = ''Pending'',
              approved_by = None, approved_at = None\<rparr>]\<rparr>) \<and>
   fst (run_schedule [call_S1, call_S2] [0, 0, 0, 0, 1, 1, 1] ([At_check, At_check], db0)) =
     [Done (Json ''book_1728025200000''),
      Done (Failed 400 ''Time slot is already pending approval'')]"
proof -
  note defs = call_S1_def call_S2_def no_faults_def book_step_def valid_0810 valid_0810_clkA2
    digits_clkA digits_clkA2 today_clkA today_clkA2 Let_def new_booking_def
  have a: "run_schedule [call_S1, call_S2] [0, 1, 0, 1, 0, 1, 0, 1] ([At_check, At_check], db0) =
     ([Done (Json ''book_1728025200000''), Done (Json ''book_1728025200001'')],
      db0\<lparr>room_availability :=
            [\<lparr>ra_time_slot = ''08:00-10:00'', ra_status = Pending, ra_room_id = ''R1'',
              availability_date = 20000, ra_student_id = Some ''S2'', ra_booking_id = None\<rparr>,
             new_slot ''10:00-12:00'' ''R1'' 20000],
          bookings :=
            [\<lparr>b_id = ''book_1728025200000'', b_student_id = ''S1'', b_room_id = ''R1'',
              booking_date = 20000, b_time_slot = ''08:00-10:00'', b_status = ''Pending'',
              approved_by = None, approved_at = None\<rparr>,
             \<lparr>b_id = ''book_1728025200001'', b_student_id = ''S2'', b_room_id = ''R1'',
              booking_date = 20000, b_time_slot = ''08:00-10:00'', b_status = ''Pending'',
              approved_by = None, approved_at = None\<rparr>]\<rparr>)"
    apply (simp add: defs)
    apply (simp add: db0_def new_slot_def slot_at_def free_unbound_def update_where_def)
    done
  have b: "fst (run_schedule [call_S1, call_S2] [0, 0, 0, 0, 1, 1, 1] ([At_check, At_check], db0)) =
     [Done (Json ''book_1728025200000''),
      Done (Failed 400 ''Time slot is already pending approval'')]"
    apply (simp add: defs)
    apply (simp add: db0_def new_slot_def slot_at_def free_unbound_def update_where_def errorMessage_def)
    done
  from a b show ?thesis
    by (rule conjI)
qed

subsection \<open>C2: a rejected booking leaves the slot bound\<close>

text \<open>
  C2 does not hold of the code. \<open>S1\<close> books a free slot and the booking is rejected: the
  decision writes only the status of the slot's row, so the row is free and still bound
  to \<open>S1\<close>. A later booking of the slot by \<open>S2\<close> is refused as "already booked by another
  student".
\<close>

theorem rejected_slot_keeps_student:
  "(let (rep1, s1) = post_bookings no_faults clkA
                       \<lparr>studentId = ''S1'', roomId = ''R1'', timeSlot = ''08:00-10:00''\<rparr> db0;
        (rep2, s2) = put_booking_status \<lparr>df_get = False, df_update = False, df_avail = False\<rparr> clkA
                       ''book_1728025200000'' ''Rejected'' (Some ''L1'') s1;
        (rep3, s3) = post_bookings no_faults clkA2
                       \<lparr>studentId = ''S2'', roomId = ''R1'', timeSlot = ''08:00-10:00''\<rparr> s2
    in (rep1, rep2, room_availability s2 ! 0, map b_status (bookings s2), rep3)) =
   (Json ''book_1728025200000'',
    Json ''Booking status updated'',
    \<lparr>ra_time_slot = ''08:00-10:00'', ra_status = Free, ra_room_id = ''R1'',
     availability_date = 20000, ra_student_id = Some ''S1'', ra_booking_id = None\<rparr>,
    [''Rejected''],
    Failed 400 ''Time slot is already booked by another student'')"
  apply (simp add: no_faults_def post_bookings_def put_booking_status_def valid_0810 valid_0810_clkA2
           digits_clkA digits_clkA2 today_clkA today_clkA2 Let_def new_booking_def)
  apply (simp add: db0_def new_slot_def slot_at_def free_unbound_def update_where_def errorMessage_def
           availabilityStatus_def toLowerCase_def lower_char_def today_clkA today_clkA2)
  done

end
